theory Spec2Isabelle
  imports Complex_Main "HOL-Library.Multiset"
begin

section \<open>Double-precision arithmetic\<close>

text \<open>
  Python floats and SQLite reals are IEEE 754 binary64 numbers.  A double is modelled
  as the real number it denotes, and every arithmetic operation of the scripts as the
  exact operation followed by rounding to the nearest double, ties to the even
  significand: \<open>rnd x\<close> scales \<open>x\<close> by the power of two that brings its magnitude
  into \<open>[2^52, 2^53)\<close>, rounds to the nearest integer (\<open>rhe\<close>, halves to the even
  one) and scales back.  The exponent range is not bounded: overflow to infinity,
  subnormal numbers and NaN are not modelled.  Comparisons of doubles, and of a double
  with an int, are exact in Python and are the comparisons of the reals.
\<close>

definition rhe :: "real \<Rightarrow> int" where
  "rhe y = (let f = \<lfloor>y\<rfloor> in
            if y - of_int f < 1/2 then f
            else if 1/2 < y - of_int f then f + 1
            else if even f then f else f + 1)"

definition rnd :: "real \<Rightarrow> real" where
  "rnd x = (if x = 0 then 0
            else (let e = \<lfloor>log 2 \<bar>x\<bar>\<rfloor> - 52
                  in of_int (rhe (x / 2 powi e)) * 2 powi e))"

text \<open>
  The four operations.  Every division of the scripts is guarded against a zero
  divisor or modelled with its \<^verbatim>\<open>ZeroDivisionError\<close>.
\<close>

definition fadd :: "real \<Rightarrow> real \<Rightarrow> real" where
  "fadd x y = rnd (x + y)"

definition fsub :: "real \<Rightarrow> real \<Rightarrow> real" where
  "fsub x y = rnd (x - y)"

definition fmul :: "real \<Rightarrow> real \<Rightarrow> real" where
  "fmul x y = rnd (x * y)"

definition fdiv :: "real \<Rightarrow> real \<Rightarrow> real" where
  "fdiv x y = rnd (x / y)"

text \<open>
  A decimal literal of the source denotes the double nearest to it: \<^verbatim>\<open>1.03\<close> is
  \<open>D 1.03\<close>.  Literals that are integers or binary fractions (\<^verbatim>\<open>3.0\<close>, \<^verbatim>\<open>0.5\<close>,
  \<^verbatim>\<open>0.25\<close>, \<^verbatim>\<open>0.75\<close>, \<^verbatim>\<open>1.25\<close>, \<^verbatim>\<open>1.50\<close>) denote themselves and are
  written as they are.
\<close>

definition D :: "real \<Rightarrow> real" where
  "D x = rnd x"


text \<open>
  Python's built-in \<^verbatim>\<open>sum\<close> and a loop of \<^verbatim>\<open>+=\<close> add from the left, starting
  from 0 (CPython until 3.11; from 3.12 on \<^verbatim>\<open>sum\<close> compensates the rounding errors of
  floats).  SQLite's \<^verbatim>\<open>SUM\<close> is modelled the same way, adding the rows in table
  order; \<^verbatim>\<open>statistics.mean\<close> computes the exact mean and rounds once.
\<close>

definition py_sum :: "real list \<Rightarrow> real" where
  "py_sum xs = foldl fadd 0 xs"

definition sql_sum :: "real list \<Rightarrow> real" where
  "sql_sum xs = foldl fadd 0 xs"

definition py_mean :: "real list \<Rightarrow> real" where
  "py_mean xs = rnd (sum_list xs / real (length xs))"

section \<open>Data model\<close>

text \<open>
  The two scripts \<^verbatim>\<open>scripts/backtest_all_strategies_30days.py\<close> (class
  \<^verbatim>\<open>ComprehensiveBacktest\<close>) and \<^verbatim>\<open>scripts/backtest_1m_scorer.py\<close> (class
  \<^verbatim>\<open>ScoringBacktest\<close>) read four SQLite tables.  A table is a list of rows, a row a
  record with one field per column the scripts read.  Python ints are integers and
  floats are doubles as above; the numeric columns of \<^verbatim>\<open>trades\<close> and
  \<^verbatim>\<open>windows\<close> hold numbers, while the columns of \<^verbatim>\<open>wallet_stats\<close> and
  \<^verbatim>\<open>tokens.initial_liquidity_sol\<close>, which the scripts guard with \<^verbatim>\<open>or 0\<close> or
  \<^verbatim>\<open>not\<close>, may be NULL (\<open>None\<close>).
\<close>

record trade =
  trade_mint :: string
  trader :: string
  amount_sol :: real
  side :: string
  block_time :: int

record window =
  window_mint :: string
  window_sec :: int
  start_time :: int
  close :: real
  high :: real
  low :: real
  vol_sol :: real

record wallet_stat =
  wallet :: string
  net_pnl_sol :: "real option"
  create_count :: "int option"
  profit_score :: "real option"
  win_rate :: "real option"
  total_trades :: "int option"

record token =
  mint :: string
  launch_block_time :: int
  creator_wallet :: string
  initial_liquidity_sol :: "real option"

record db =
  tokens :: "token list"
  trades :: "trade list"
  windows :: "window list"
  wallet_stats :: "wallet_stat list"

definition SOL_PRICE_USD :: real where
  "SOL_PRICE_USD = 186"

text \<open>Python's \<^verbatim>\<open>x or 0\<close> on a nullable numeric column.\<close>

fun or0 :: "'a::zero option \<Rightarrow> 'a" where
  "or0 None = 0"
| "or0 (Some x) = x"

text \<open>
  The exit reasons of the six strategies.  The score-gated strategy formats its
  target and stop labels from the bracket's multiplier
  (\<^verbatim>\<open>f"target_{int((profit_target-1)*100)}pct"\<close>); the label is kept as the
  constructor applied to that multiplier.
\<close>

datatype exit_reason =
    Time
  | Profit_3pct | Stop_loss | Time_20s
  | Target_30pct | Stop_loss_20pct | Time_30s
  | Target_50pct | Stop_loss_15pct | Time_120s
  | Target_20pct | Stop_loss_10pct | Time_15s
  | Target_25pct | Time_300s
  | Hit_1m_mc | Target_pct real | Stop_loss_pct real | Time_420s

datatype tier = Tier_S | Tier_A | Tier_B | Tier_C | Tier_D | Tier_Unknown

text \<open>
  The dictionary a strategy returns.  The keys only some strategies set are optional
  fields.
\<close>

record position =
  strategy :: string
  position_size_sol :: real
  entry_price :: real
  exit_price :: real
  exit_reason :: exit_reason
  pnl_sol :: real
  pnl_usd :: real
  gain_pct :: real
  buyers :: "nat option"
  volume :: "real option"
  copied_wallet_tier :: "tier option"
  score :: "real option"
  peak_mc_sol :: "real option"
  hit_1m :: "bool option"

section \<open>Queries of \<^verbatim>\<open>ComprehensiveBacktest\<close>\<close>

text \<open>
  \<^verbatim>\<open>BETWEEN\<close> is inclusive at both ends.  \<^verbatim>\<open>ORDER BY ... ASC\<close> is modelled by
  the stable sort of the table's rows.
\<close>

definition get_trades :: "db \<Rightarrow> string \<Rightarrow> int \<Rightarrow> int \<Rightarrow> int \<Rightarrow> trade list" where
  "get_trades d m launch_time start_offset end_offset =
     sort_key block_time
       (filter (\<lambda>t. trade_mint t = m \<and> launch_time + start_offset \<le> block_time t
                     \<and> block_time t \<le> launch_time + end_offset) (trades d))"

definition get_price_data :: "db \<Rightarrow> string \<Rightarrow> int \<Rightarrow> int \<Rightarrow> window list" where
  "get_price_data d m launch_time max_seconds =
     sort_key start_time
       (filter (\<lambda>w. window_mint w = m \<and> window_sec w = 60 \<and> launch_time \<le> start_time w
                     \<and> start_time w \<le> launch_time + max_seconds) (windows d))"

definition get_creator_stats :: "db \<Rightarrow> string \<Rightarrow> (real \<times> int) option" where
  "get_creator_stats d creator =
     (case find (\<lambda>r. wallet r = creator) (wallet_stats d) of
        None \<Rightarrow> None
      | Some row \<Rightarrow> Some (or0 (net_pnl_sol row), or0 (create_count row)))"

definition get_wallet_tier :: "db \<Rightarrow> string \<Rightarrow> tier" where
  "get_wallet_tier d w =
     (case find (\<lambda>r. wallet r = w) (wallet_stats d) of
        None \<Rightarrow> Tier_Unknown
      | Some row \<Rightarrow>
          (let ps = or0 (profit_score row); wr = or0 (win_rate row);
               tt = or0 (total_trades row)
           in if ps \<ge> 85 \<and> wr \<ge> D 0.70 \<and> tt \<ge> 50 then Tier_S
              else if ps \<ge> 75 \<and> wr \<ge> D 0.60 \<and> tt \<ge> 20 then Tier_A
              else if ps \<ge> 65 \<and> wr \<ge> 0.50 \<and> tt \<ge> 10 then Tier_B
              else if ps \<ge> 50 \<and> tt \<ge> 5 then Tier_C
              else Tier_D))"

section \<open>Strategy 1: dollar scalping\<close>

text \<open>
  Every exit loop returns the exit price, the exit reason and, as a third component
  that the returned dictionary does not keep, the \<^verbatim>\<open>time_offset\<close> of the window at
  which the loop broke (\<open>None\<close> when it ran to the end of \<^verbatim>\<open>prices\<close>).
\<close>

fun dollar_scalping_exit :: "int \<Rightarrow> real \<Rightarrow> int \<Rightarrow> window list \<Rightarrow> real \<times> exit_reason \<times> int option" where
  "dollar_scalping_exit launch_time ep entry_time [] = (ep, Time, None)"
| "dollar_scalping_exit launch_time ep entry_time (p # ps) =
     (let time_offset = start_time p - launch_time in
      if time_offset \<le> entry_time then dollar_scalping_exit launch_time ep entry_time ps
      else let gain_pct = fmul (fdiv (fsub (high p) ep) ep) 100 in
        if gain_pct \<ge> 3.0 then (fmul ep (D 1.03), Profit_3pct, Some time_offset)
        else if low p < fmul ep (D 0.98) then (fmul ep (D 0.98), Stop_loss, Some time_offset)
        else if time_offset \<ge> entry_time + 20 then (close p, Time_20s, Some time_offset)
        else dollar_scalping_exit launch_time ep entry_time ps)"

definition mk_position :: "string \<Rightarrow> real \<Rightarrow> real \<Rightarrow> real \<Rightarrow> exit_reason \<Rightarrow> position" where
  "mk_position name sz ep xp reason =
     (let pnl = fmul sz (fdiv (fsub xp ep) ep) in
      \<lparr> strategy = name, position_size_sol = sz, entry_price = ep, exit_price = xp,
        exit_reason = reason, pnl_sol = pnl, pnl_usd = fmul pnl SOL_PRICE_USD,
        gain_pct = fmul (fdiv (fsub xp ep) ep) 100,
        buyers = None, volume = None, copied_wallet_tier = None, score = None,
        peak_mc_sol = None, hit_1m = None \<rparr>)"

definition test_dollar_scalping :: "string \<Rightarrow> int \<Rightarrow> window list \<Rightarrow> position option" where
  "test_dollar_scalping m launch_time prices =
     (if length prices < 2 then None
      else case find (\<lambda>p. 30 \<le> start_time p - launch_time \<and> start_time p - launch_time \<le> 60) prices of
        None \<Rightarrow> None
      | Some p0 \<Rightarrow>
          (let ep = close p0; entry_time = start_time p0 - launch_time in
           if ep = 0 \<or> ep \<le> 0 then None
           else
             (let position_size = fdiv 1.0 SOL_PRICE_USD;
                  (xp, reason, fired) = dollar_scalping_exit launch_time ep entry_time prices;
                  pnl = fmul position_size (fdiv (fsub xp ep) ep);
                  usd = fmul pnl SOL_PRICE_USD
              in if \<bar>usd\<bar> < D 0.01 \<and> reason = Time then None
                 else Some (mk_position ''dollar_scalping'' position_size ep xp reason))))"

section \<open>Strategy 2: rank based\<close>

fun rank_based_exit :: "int \<Rightarrow> real \<Rightarrow> window list \<Rightarrow> real \<times> exit_reason \<times> int option" where
  "rank_based_exit launch_time ep [] = (ep, Time, None)"
| "rank_based_exit launch_time ep (p # ps) =
     (let time_offset = start_time p - launch_time in
      if time_offset \<le> 60 then rank_based_exit launch_time ep ps
      else let gain_pct = fmul (fdiv (fsub (high p) ep) ep) 100 in
        if gain_pct \<ge> 30.0 then (fmul ep (D 1.30), Target_30pct, Some time_offset)
        else if low p < fmul ep (D 0.80) then (fmul ep (D 0.80), Stop_loss_20pct, Some time_offset)
        else if time_offset \<ge> 60 + 30 then (close p, Time_30s, Some time_offset)
        else rank_based_exit launch_time ep ps)"

definition test_rank_based :: "string \<Rightarrow> int \<Rightarrow> window list \<Rightarrow> real \<Rightarrow> position option" where
  "test_rank_based m launch_time prices volume_5min =
     (if length prices < 3 then None
      else if volume_5min < 20.0 then None
      else case find (\<lambda>p. 60 \<le> start_time p - launch_time \<and> start_time p - launch_time \<le> 120) prices of
        None \<Rightarrow> None
      | Some p0 \<Rightarrow>
          (let ep = close p0 in
           if ep = 0 \<or> ep \<le> 0 then None
           else
             (let position_size = fdiv 5.0 SOL_PRICE_USD;
                  (xp, reason, fired) = rank_based_exit launch_time ep prices
              in Some (mk_position ''rank_based'' position_size ep xp reason))))"

section \<open>Strategy 3: momentum\<close>

text \<open>\<^verbatim>\<open>len(set(xs))\<close>: the number of distinct elements of a list.\<close>

definition distinct_count :: "'a list \<Rightarrow> nat" where
  "distinct_count xs = length (remdups xs)"

definition buy_traders :: "trade list \<Rightarrow> string list" where
  "buy_traders ts = map trader (filter (\<lambda>t. side t = ''buy'') ts)"

definition buy_volume :: "trade list \<Rightarrow> real" where
  "buy_volume ts = py_sum (map amount_sol (filter (\<lambda>t. side t = ''buy'') ts))"

fun momentum_exit :: "int \<Rightarrow> real \<Rightarrow> window list \<Rightarrow> real \<times> exit_reason \<times> int option" where
  "momentum_exit launch_time ep [] = (ep, Time, None)"
| "momentum_exit launch_time ep (p # ps) =
     (let time_offset = start_time p - launch_time in
      if time_offset \<le> 120 then momentum_exit launch_time ep ps
      else let gain_pct = fmul (fdiv (fsub (high p) ep) ep) 100 in
        if gain_pct \<ge> 50.0 then (fmul ep 1.50, Target_50pct, Some time_offset)
        else if low p < fmul ep (D 0.85) then (fmul ep (D 0.85), Stop_loss_15pct, Some time_offset)
        else if time_offset \<ge> 120 + 120 then (close p, Time_120s, Some time_offset)
        else momentum_exit launch_time ep ps)"

definition test_momentum :: "db \<Rightarrow> string \<Rightarrow> int \<Rightarrow> window list \<Rightarrow> position option" where
  "test_momentum d m launch_time prices =
     (if length prices < 4 then None
      else
        (let trades_60_120 = get_trades d m launch_time 60 120 in
         if length trades_60_120 < 5 then None
         else
           (let n_buyers = distinct_count (buy_traders trades_60_120);
                vol = buy_volume trades_60_120
            in if n_buyers < 3 \<or> vol < 4.0 then None
               else case find (\<lambda>p. 120 \<le> start_time p - launch_time
                                     \<and> start_time p - launch_time \<le> 130) prices of
                 None \<Rightarrow> None
               | Some p0 \<Rightarrow>
                   (let ep = close p0 in
                    if ep = 0 \<or> ep \<le> 0 then None
                    else
                      (let position_size = fdiv 3.0 SOL_PRICE_USD;
                           (xp, reason, fired) = momentum_exit launch_time ep prices
                       in Some ((mk_position ''momentum'' position_size ep xp reason)
                                 \<lparr> buyers := Some n_buyers, volume := Some vol \<rparr>))))))"

section \<open>Strategy 4: copy trading\<close>

fun copy_trading_exit :: "int \<Rightarrow> real \<Rightarrow> int \<Rightarrow> window list \<Rightarrow> real \<times> exit_reason \<times> int option" where
  "copy_trading_exit launch_time ep entry_time [] = (ep, Time, None)"
| "copy_trading_exit launch_time ep entry_time (p # ps) =
     (let time_offset = start_time p - launch_time in
      if time_offset \<le> entry_time then copy_trading_exit launch_time ep entry_time ps
      else let gain_pct = fmul (fdiv (fsub (high p) ep) ep) 100 in
        if gain_pct \<ge> 20.0 then (fmul ep (D 1.20), Target_20pct, Some time_offset)
        else if low p < fmul ep (D 0.90) then (fmul ep (D 0.90), Stop_loss_10pct, Some time_offset)
        else if time_offset \<ge> entry_time + 15 then (close p, Time_15s, Some time_offset)
        else copy_trading_exit launch_time ep entry_time ps)"

definition test_copy_trading :: "db \<Rightarrow> string \<Rightarrow> int \<Rightarrow> window list \<Rightarrow> position option" where
  "test_copy_trading d m launch_time prices =
     (if length prices < 2 then None
      else
        (let early_trades = get_trades d m launch_time 0 60 in
         if early_trades = [] then None
         else case find (\<lambda>t. \<not> side t \<noteq> ''buy'' \<and> \<not> amount_sol t < 0.25
                               \<and> get_wallet_tier d (trader t) \<in> {Tier_S, Tier_A, Tier_B, Tier_C})
                     early_trades of
           None \<Rightarrow> None
         | Some profitable_trade \<Rightarrow>
             (let entry_time = block_time profitable_trade - launch_time in
              case find (\<lambda>p. \<bar>(start_time p - launch_time) - entry_time\<bar> < 10) prices of
                None \<Rightarrow> None
              | Some p0 \<Rightarrow>
                  (let ep = close p0 in
                   if ep = 0 \<or> ep \<le> 0 then None
                   else
                     (let position_size = fdiv 2.0 SOL_PRICE_USD;
                          (xp, reason, fired) = copy_trading_exit launch_time ep entry_time prices
                      in Some ((mk_position ''copy_trading'' position_size ep xp reason)
                                \<lparr> copied_wallet_tier :=
                                    Some (get_wallet_tier d (trader profitable_trade)) \<rparr>))))))"

section \<open>Strategy 5: late opportunity\<close>

fun late_opportunity_exit :: "int \<Rightarrow> real \<Rightarrow> window list \<Rightarrow> real \<times> exit_reason \<times> int option" where
  "late_opportunity_exit launch_time ep [] = (ep, Time, None)"
| "late_opportunity_exit launch_time ep (p # ps) =
     (let time_offset = start_time p - launch_time in
      if time_offset \<le> 1200 then late_opportunity_exit launch_time ep ps
      else let gain_pct = fmul (fdiv (fsub (high p) ep) ep) 100 in
        if gain_pct \<ge> 25.0 then (fmul ep 1.25, Target_25pct, Some time_offset)
        else if low p < fmul ep (D 0.80) then (fmul ep (D 0.80), Stop_loss_20pct, Some time_offset)
        else if time_offset \<ge> 1200 + 300 then (close p, Time_300s, Some time_offset)
        else late_opportunity_exit launch_time ep ps)"

definition test_late_opportunity :: "db \<Rightarrow> string \<Rightarrow> int \<Rightarrow> window list \<Rightarrow> position option" where
  "test_late_opportunity d m launch_time prices =
     (if length prices < 20 then None
      else
        (let late_trades = get_trades d m launch_time 1200 1260 in
         if late_trades = [] then None
         else
           (let n_buyers = distinct_count (buy_traders late_trades);
                vol = buy_volume late_trades
            in if n_buyers < 10 \<or> vol < 10.0 then None
               else case find (\<lambda>p. 1200 \<le> start_time p - launch_time
                                     \<and> start_time p - launch_time \<le> 1260) prices of
                 None \<Rightarrow> None
               | Some p0 \<Rightarrow>
                   (let ep = close p0 in
                    if ep = 0 \<or> ep \<le> 0 then None
                    else
                      (let position_size = fdiv 1.0 SOL_PRICE_USD;
                           (xp, reason, fired) = late_opportunity_exit launch_time ep prices
                       in Some (mk_position ''late_opportunity'' position_size ep xp reason))))))"

section \<open>Strategy 6: the seven-signal score and 1M market-cap hunting\<close>

record score7 =
  signal_1 :: real
  signal_2 :: real
  signal_3 :: real
  signal_4 :: real
  signal_5 :: real
  signal_6 :: real
  signal_7 :: real
  total :: real

text \<open>
  \<^verbatim>\<open>calculate_7_signal_score\<close> is one function of seven consecutive blocks, each
  writing one key of the \<^verbatim>\<open>score\<close> dictionary.  Each block is a definition here.
\<close>

definition cs_signal_1 :: "db \<Rightarrow> string \<Rightarrow> real" where
  "cs_signal_1 d creator =
     (case get_creator_stats d creator of
        None \<Rightarrow> 0.0
      | Some (net_pnl, cc) \<Rightarrow>
          if net_pnl \<ge> 500 \<and> cc \<ge> 5 then 2.0
          else if net_pnl \<ge> 200 \<and> cc \<ge> 3 then 1.5
          else if net_pnl \<ge> 50 then 1.0
          else 0.0)"

definition cs_signal_2 :: "db \<Rightarrow> string \<Rightarrow> int \<Rightarrow> real" where
  "cs_signal_2 d m launch_time =
     (let trades_60 = get_trades d m launch_time 0 60;
          buyers_60 = distinct_count (buy_traders trades_60)
      in if buyers_60 \<ge> 10 then 2.0
         else if buyers_60 \<ge> 7 then 1.5
         else if buyers_60 \<ge> 5 then 1.0
         else 0.0)"

definition cs_signal_4 :: "db \<Rightarrow> string \<Rightarrow> int \<Rightarrow> real" where
  "cs_signal_4 d m launch_time =
     (let trades_60 = get_trades d m launch_time 0 60;
          proven_winners_buying =
            length (filter (\<lambda>t. \<not> side t \<noteq> ''buy''
                                 \<and> get_wallet_tier d (trader t) \<in> {Tier_S, Tier_A, Tier_B}) trades_60)
      in if proven_winners_buying \<ge> 3 then 2.0
         else if proven_winners_buying \<ge> 2 then 1.5
         else if proven_winners_buying \<ge> 1 then 1.0
         else 0.0)"

text \<open>
  \<^verbatim>\<open>trader_volumes[trade["trader"]] += trade["amount_sol"]\<close> on a
  \<^verbatim>\<open>defaultdict(float)\<close>: the dictionary is an association list in insertion order,
  and a missing key starts from \<^verbatim>\<open>0.0\<close>.  The same loop accumulates
  \<^verbatim>\<open>total_volume\<close> from \<^verbatim>\<open>0.0\<close>.
\<close>

fun add_volume :: "(string \<times> real) list \<Rightarrow> string \<Rightarrow> real \<Rightarrow> (string \<times> real) list" where
  "add_volume [] k v = [(k, fadd 0.0 v)]"
| "add_volume ((k', v') # kvs) k v =
     (if k' = k then (k', fadd v' v) # kvs else (k', v') # add_volume kvs k v)"

definition trader_volumes :: "trade list \<Rightarrow> (string \<times> real) list" where
  "trader_volumes buy_trades = foldl (\<lambda>tv t. add_volume tv (trader t) (amount_sol t)) [] buy_trades"

definition cs_signal_5 :: "db \<Rightarrow> string \<Rightarrow> int \<Rightarrow> real" where
  "cs_signal_5 d m launch_time =
     (let trades_120 = get_trades d m launch_time 0 120;
          buy_trades = filter (\<lambda>t. side t = ''buy'') trades_120
      in if buy_trades = [] then 0.0
         else
           (let tv = trader_volumes buy_trades;
                total_volume = foldl fadd 0.0 (map amount_sol buy_trades)
            in if total_volume > 0 then
                 (let top3 = take 3 (rev (sort (map snd tv)));
                      concentration = fmul (fdiv (py_sum top3) total_volume) 100
                  in if concentration < 70 then 1.0
                     else if concentration < 80 then 0.5
                     else 0.0)
               else 0.0))"

definition cs_signal_6 :: "db \<Rightarrow> string \<Rightarrow> int \<Rightarrow> real" where
  "cs_signal_6 d m launch_time =
     (let vol_recent = buy_volume (get_trades d m launch_time 90 120);
          vol_baseline = buy_volume (get_trades d m launch_time 60 90)
      in if vol_baseline > 0.5 \<and> vol_recent > 0.5 then
           (let accel = fdiv vol_recent vol_baseline
            in if accel \<ge> 2.0 then 1.5
               else if accel \<ge> 1.5 then 1.0
               else 0.0)
         else 0.0)"

definition cs_signal_7 :: "db \<Rightarrow> string \<Rightarrow> int \<Rightarrow> real" where
  "cs_signal_7 d m launch_time =
     (let prices = get_price_data d m launch_time 300
      in if length prices \<ge> 3 then
           (let first_price = close (prices ! 0);
                third_price = (if length prices > 2 then close (prices ! 2) else close (last prices))
            in if first_price > 0 then
                 (let mc_change = fmul (fsub third_price first_price) 1000000000;
                      time_delta_min = 3;
                      velocity = fdiv mc_change time_delta_min
                  in if velocity \<ge> 1000 then 3.0
                     else if velocity \<ge> 500 then 2.0
                     else if velocity \<ge> 200 then 1.0
                     else 0.0)
               else 0.0)
         else 0.0)"

definition calculate_7_signal_score :: "db \<Rightarrow> string \<Rightarrow> int \<Rightarrow> string \<Rightarrow> score7" where
  "calculate_7_signal_score d m launch_time creator =
     (let s1 = cs_signal_1 d creator;
          s2 = cs_signal_2 d m launch_time;
          s3 = 0.0;
          s4 = cs_signal_4 d m launch_time;
          s5 = cs_signal_5 d m launch_time;
          s6 = cs_signal_6 d m launch_time;
          s7 = cs_signal_7 d m launch_time
      in \<lparr> signal_1 = s1, signal_2 = s2, signal_3 = s3, signal_4 = s4, signal_5 = s5,
           signal_6 = s6, signal_7 = s7,
           total = py_sum [s1, s2, s3, s4, s5, s6, s7] \<rparr>)"

text \<open>
  The exit loop of the score-gated strategy threads \<^verbatim>\<open>peak_mc_sol\<close> through the
  windows; it is the fourth component of the result.
\<close>

fun mc_hunting_exit ::
  "int \<Rightarrow> real \<Rightarrow> real \<Rightarrow> real \<Rightarrow> real \<Rightarrow> window list \<Rightarrow> real \<times> exit_reason \<times> int option \<times> real" where
  "mc_hunting_exit launch_time ep profit_target stop_loss peak [] = (ep, Time, None, peak)"
| "mc_hunting_exit launch_time ep profit_target stop_loss peak (p # ps) =
     (let time_offset = start_time p - launch_time in
      if time_offset \<le> 120 then mc_hunting_exit launch_time ep profit_target stop_loss peak ps
      else
        (let mc_sol = fdiv (fmul (high p) 1000000000) 1000000000;
             peak' = (if mc_sol > peak then mc_sol else peak)
         in if peak' \<ge> 1000000 then (close p, Hit_1m_mc, Some time_offset, peak')
            else if high p \<ge> fmul ep profit_target then
              (fmul ep profit_target, Target_pct profit_target, Some time_offset, peak')
            else if low p < fmul ep stop_loss then
              (fmul ep stop_loss, Stop_loss_pct stop_loss, Some time_offset, peak')
            else if time_offset \<ge> 420 then (close p, Time_420s, Some time_offset, peak')
            else mc_hunting_exit launch_time ep profit_target stop_loss peak' ps))"

text \<open>Position size, profit target and stop loss of a score bracket.\<close>

definition bracket :: "real \<Rightarrow> real \<times> real \<times> real" where
  "bracket t =
     (if t \<ge> 9.0 then (1.0, 1.50, D 0.80)
      else if t \<ge> 8.0 then (0.75, 1.50, D 0.85)
      else if t \<ge> 7.0 then (0.50, D 1.30, D 0.80)
      else (D 0.30, D 1.30, D 0.80))"

definition test_1m_mc_hunting :: "db \<Rightarrow> string \<Rightarrow> int \<Rightarrow> string \<Rightarrow> window list \<Rightarrow> position option" where
  "test_1m_mc_hunting d m launch_time creator prices =
     (if length prices < 3 then None
      else
        (let score_data = calculate_7_signal_score d m launch_time creator in
         if total score_data < 6.0 then None
         else case find (\<lambda>p. 120 \<le> start_time p - launch_time
                               \<and> start_time p - launch_time \<le> 130) prices of
           None \<Rightarrow> None
         | Some p0 \<Rightarrow>
             (let ep = close p0 in
              if ep = 0 \<or> ep \<le> 0 then None
              else
                (let (position_size, profit_target, stop_loss) = bracket (total score_data);
                     (xp, reason, fired, peak) =
                        mc_hunting_exit launch_time ep profit_target stop_loss 0.0 prices
                 in Some ((mk_position ''1m_mc_hunting'' position_size ep xp reason)
                           \<lparr> score := Some (total score_data),
                             peak_mc_sol := Some (fdiv peak 1000000),
                             hit_1m := Some (peak \<ge> 1000000) \<rparr>)))))"

section \<open>The standalone scorer \<^verbatim>\<open>ScoringBacktest\<close>\<close>

text \<open>
  Each \<^verbatim>\<open>calculate_signal_N\<close> returns a pair of the contribution and a diagnostic
  label formatted from floats; the definitions below return the contribution.
  A SQL comparison with NULL does not hold, \<^verbatim>\<open>ORDER BY ... DESC\<close> puts NULL last,
  and the order among equal keys is the table's.
\<close>

definition buys_between :: "db \<Rightarrow> string \<Rightarrow> int \<Rightarrow> int \<Rightarrow> trade list" where
  "buys_between d m lo hi =
     filter (\<lambda>t. trade_mint t = m \<and> side t = ''buy'' \<and> lo \<le> block_time t \<and> block_time t \<le> hi)
       (trades d)"

text \<open>
  \<^verbatim>\<open>SELECT close FROM windows WHERE mint = ? AND window_sec = 60 AND start_time <= ?
  ORDER BY start_time DESC LIMIT 1\<close>
\<close>

definition close_at :: "db \<Rightarrow> string \<Rightarrow> int \<Rightarrow> real option" where
  "close_at d m t =
     (case rev (sort_key start_time
                 (filter (\<lambda>w. window_mint w = m \<and> window_sec w = 60 \<and> start_time w \<le> t)
                    (windows d))) of
        [] \<Rightarrow> None
      | w # ws \<Rightarrow> Some (close w))"

definition calculate_signal_1_creator_reputation :: "db \<Rightarrow> string \<Rightarrow> real" where
  "calculate_signal_1_creator_reputation d m =
     (case find (\<lambda>t. mint t = m) (tokens d) of
        None \<Rightarrow> 0.0
      | Some tok \<Rightarrow>
          (case find (\<lambda>r. wallet r = creator_wallet tok) (wallet_stats d) of
             None \<Rightarrow> 0.0
           | Some row \<Rightarrow>
               (let pnl = or0 (net_pnl_sol row); cnt = or0 (create_count row)
                in if pnl \<ge> 500 \<and> cnt \<ge> 5 then 2.0
                   else if pnl \<ge> 200 \<and> cnt \<ge> 3 then 1.5
                   else if pnl \<ge> 50 then 1.0
                   else 0.0)))"

definition calculate_signal_2_buyer_speed :: "db \<Rightarrow> string \<Rightarrow> int \<Rightarrow> int \<Rightarrow> real" where
  "calculate_signal_2_buyer_speed d m launch_time eval_time =
     (let rows = buys_between d m launch_time (launch_time + eval_time);
          buyer_count = distinct_count (map trader rows)
      in if buyer_count = 0 then 0.0
         else
           (let span = (if rows = [] then 0
                        else Max (set (map block_time rows)) - Min (set (map block_time rows)))
            in if buyer_count \<ge> 10 \<and> span \<le> 30 then 2.0
               else if buyer_count \<ge> 10 \<and> span \<le> 60 then 1.5
               else if buyer_count \<ge> 7 then 1.0
               else 0.0))"

definition calculate_signal_3_liquidity_ratio :: "db \<Rightarrow> string \<Rightarrow> int \<Rightarrow> int \<Rightarrow> real" where
  "calculate_signal_3_liquidity_ratio d m eval_time launch_time =
     (case find (\<lambda>t. mint t = m) (tokens d) of
        None \<Rightarrow> 0.0
      | Some tok \<Rightarrow>
          if or0 (initial_liquidity_sol tok) = 0 then 0.0
          else
            (let liquidity = or0 (initial_liquidity_sol tok) in
             case close_at d m (launch_time + eval_time) of
               None \<Rightarrow> 0.0
             | Some price \<Rightarrow>
                 if price = 0 then 0.0
                 else
                   (let estimated_mc = fmul price 1000000000.0 in
                    if estimated_mc = 0 then 0.0
                    else
                      (let ratio = fdiv liquidity estimated_mc
                       in if ratio < D 0.03 then 1.5
                          else if ratio < D 0.05 then 1.0
                          else 0.0))))"

definition is_profitable :: "wallet_stat \<Rightarrow> bool" where
  "is_profitable r =
     ((case net_pnl_sol r of None \<Rightarrow> False | Some x \<Rightarrow> x \<ge> 100)
      \<and> (case win_rate r of None \<Rightarrow> False | Some x \<Rightarrow> x \<ge> 0.5)
      \<and> (case total_trades r of None \<Rightarrow> False | Some x \<Rightarrow> x \<ge> 5))"

definition profitable_wallets :: "db \<Rightarrow> string list" where
  "profitable_wallets d =
     (let rows = filter is_profitable (wallet_stats d);
          scored = filter (\<lambda>r. profit_score r \<noteq> None) rows;
          unscored = filter (\<lambda>r. profit_score r = None) rows
      in map wallet (take 100 (sort_key (\<lambda>r. - or0 (profit_score r)) scored @ unscored)))"

definition calculate_signal_4_wallet_overlap :: "db \<Rightarrow> string \<Rightarrow> int \<Rightarrow> int \<Rightarrow> real" where
  "calculate_signal_4_wallet_overlap d m launch_time eval_time =
     (let pw = profitable_wallets d in
      if pw = [] then 0.0
      else
        (let buyer_list = remdups (map trader (buys_between d m launch_time (launch_time + eval_time)));
             overlap = length (filter (\<lambda>b. b \<in> set pw) buyer_list)
         in if overlap \<ge> 3 then 2.0
            else if overlap = 2 then 1.5
            else if overlap = 1 then 1.0
            else 0.0))"

text \<open>
  \<^verbatim>\<open>SELECT trader, SUM(amount_sol) as total_sol ... GROUP BY trader ORDER BY total_sol DESC\<close>
\<close>

definition trader_totals :: "trade list \<Rightarrow> (string \<times> real) list" where
  "trader_totals rows =
     rev (sort_key snd
       (map (\<lambda>k. (k, sql_sum (map amount_sol (filter (\<lambda>t. trader t = k) rows))))
            (remdups (map trader rows))))"

definition calculate_signal_5_buy_concentration :: "db \<Rightarrow> string \<Rightarrow> int \<Rightarrow> int \<Rightarrow> real" where
  "calculate_signal_5_buy_concentration d m launch_time eval_time =
     (let groups = trader_totals (buys_between d m launch_time (launch_time + eval_time)) in
      if length groups \<le> 2 then 0.0
      else
        (let total_volume = py_sum (map snd groups) in
         if total_volume = 0 then 0.0
         else
           (let top3_volume = py_sum (map snd (take 3 groups));
                concentration = fmul (fdiv top3_volume total_volume) 100
            in if concentration < 70 then 1.0
               else if concentration < 80 then 0.5
               else 0.0)))"

definition calculate_signal_6_volume_acceleration :: "db \<Rightarrow> string \<Rightarrow> int \<Rightarrow> int \<Rightarrow> real" where
  "calculate_signal_6_volume_acceleration d m launch_time eval_time =
     (if eval_time < 60 then 0.0
      else
        (let recent_vol =
               sql_sum (map amount_sol
                 (buys_between d m (launch_time + eval_time - 30) (launch_time + eval_time)));
             baseline_vol =
               sql_sum (map amount_sol
                 (buys_between d m (launch_time + eval_time - 60) (launch_time + eval_time - 30)))
         in if baseline_vol < D 0.1 then 0.0
            else
              (let acceleration = fdiv recent_vol baseline_vol
               in if acceleration \<ge> 2.0 then 1.5
                  else if acceleration \<ge> 1.5 then 1.0
                  else 0.0)))"

definition calculate_signal_7_mc_velocity :: "db \<Rightarrow> string \<Rightarrow> int \<Rightarrow> int \<Rightarrow> real" where
  "calculate_signal_7_mc_velocity d m launch_time eval_time =
     (if eval_time < 30 then 0.0
      else case close_at d m (launch_time + eval_time) of
        None \<Rightarrow> 0.0
      | Some current_price \<Rightarrow>
          if current_price = 0 then 0.0
          else
            (let current_mc = fmul current_price 1000000000.0 in
             case close_at d m (launch_time + eval_time - 30) of
               None \<Rightarrow> 0.0
             | Some baseline_price \<Rightarrow>
                 if baseline_price = 0 then 0.0
                 else
                   (let baseline_mc = fmul baseline_price 1000000000.0;
                        mc_change = fsub current_mc baseline_mc;
                        velocity = fmul (fdiv mc_change 30.0) 60.0
                    in if velocity \<ge> 1000 then 3.0
                       else if velocity \<ge> 500 then 2.0
                       else if velocity \<ge> 200 then 1.0
                       else 0.0)))"

record token_score =
  total_score :: real
  ts_signal_1 :: real
  ts_signal_2 :: real
  ts_signal_3 :: real
  ts_signal_4 :: real
  ts_signal_5 :: real
  ts_signal_6 :: real
  ts_signal_7 :: real

definition score_token_at_time :: "db \<Rightarrow> string \<Rightarrow> int \<Rightarrow> int \<Rightarrow> token_score" where
  "score_token_at_time d m launch_time eval_time =
     (let s1 = calculate_signal_1_creator_reputation d m;
          s2 = calculate_signal_2_buyer_speed d m launch_time eval_time;
          s3 = calculate_signal_3_liquidity_ratio d m eval_time launch_time;
          s4 = calculate_signal_4_wallet_overlap d m launch_time eval_time;
          s5 = calculate_signal_5_buy_concentration d m launch_time eval_time;
          s6 = calculate_signal_6_volume_acceleration d m launch_time eval_time;
          s7 = calculate_signal_7_mc_velocity d m launch_time eval_time
      in \<lparr> total_score = fadd (fadd (fadd (fadd (fadd (fadd s1 s2) s3) s4) s5) s6) s7,
           ts_signal_1 = s1, ts_signal_2 = s2, ts_signal_3 = s3, ts_signal_4 = s4,
           ts_signal_5 = s5, ts_signal_6 = s6, ts_signal_7 = s7 \<rparr>)"

section \<open>The batch runner and the report\<close>

datatype py_exception = ZeroDivisionError | Exception string

text \<open>
  One entry of the \<^verbatim>\<open>results\<close> dictionary.  The key \<^verbatim>\<open>1m_hits\<close> exists for the
  score-gated strategy only.  The dictionary is the list of its items in insertion
  order.
\<close>

record strategy_results =
  trades_list :: "position list"
  total_pnl :: real
  wins :: nat
  losses :: nat
  hits_1m :: "nat option"

type_synonym results = "(string \<times> strategy_results) list"

definition no_trades :: strategy_results where
  "no_trades = \<lparr> trades_list = [], total_pnl = 0.0, wins = 0, losses = 0, hits_1m = None \<rparr>"

definition initial_results :: results where
  "initial_results =
     [(''dollar_scalping'', no_trades), (''rank_based'', no_trades), (''momentum'', no_trades),
      (''copy_trading'', no_trades), (''late_opportunity'', no_trades),
      (''1m_mc_hunting'', no_trades \<lparr> hits_1m := Some 0 \<rparr>)]"

text \<open>The body of \<^verbatim>\<open>if result:\<close> in the runner's inner loop.\<close>

definition record_result :: "string \<Rightarrow> position \<Rightarrow> strategy_results \<Rightarrow> strategy_results" where
  "record_result strategy_name r s =
     s \<lparr> trades_list := trades_list s @ [r],
         total_pnl := fadd (total_pnl s) (pnl_usd r),
         wins := (if pnl_sol r > 0 then wins s + 1 else wins s),
         losses := (if pnl_sol r > 0 then losses s else losses s + 1),
         hits_1m := (if strategy_name = ''1m_mc_hunting'' \<and> hit_1m r = Some True
                     then map_option Suc (hits_1m s) else hits_1m s) \<rparr>"

definition update_entry :: "string \<Rightarrow> (strategy_results \<Rightarrow> strategy_results) \<Rightarrow> results \<Rightarrow> results" where
  "update_entry strategy_name f res =
     map (\<lambda>(k, v). if k = strategy_name then (k, f v) else (k, v)) res"

text \<open>
  The outcome of calling one strategy closure inside \<^verbatim>\<open>try\<close>: an exception, no
  position (\<^verbatim>\<open>None\<close>) or a position.  \<^verbatim>\<open>except Exception as e: pass\<close> leaves the
  results as they are.
\<close>

type_synonym outcome = "py_exception + position option"

fun run_strategies :: "(string \<times> outcome) list \<Rightarrow> results \<Rightarrow> results" where
  "run_strategies [] res = res"
| "run_strategies ((strategy_name, oc) # rest) res =
     run_strategies rest
       (case oc of
          Inl e \<Rightarrow> res
        | Inr None \<Rightarrow> res
        | Inr (Some r) \<Rightarrow> update_entry strategy_name (record_result strategy_name r) res)"

fun run_batch :: "(string \<times> outcome) list list \<Rightarrow> results \<Rightarrow> results" where
  "run_batch [] res = res"
| "run_batch (ocs # rest) res = run_batch rest (run_strategies ocs res)"

text \<open>
  \<^verbatim>\<open>get_tokens_last_n_days\<close>: the cutoff instant, computed from the clock in the
  source, is a parameter; \<^verbatim>\<open>mint\<close> is the key of \<^verbatim>\<open>tokens\<close>.  A row of the result
  is the token with its \<^verbatim>\<open>total_volume_5min\<close>.
\<close>

definition get_tokens_last_n_days :: "db \<Rightarrow> int \<Rightarrow> (token \<times> real) list" where
  "get_tokens_last_n_days d cutoff_time =
     rev (sort_key (\<lambda>(t, v). launch_block_time t)
       (map (\<lambda>t. (t, sql_sum (map vol_sol
                      (filter (\<lambda>w. window_mint w = mint t \<and> window_sec w = 60
                                    \<and> launch_block_time t \<le> start_time w
                                    \<and> start_time w \<le> launch_block_time t + 300) (windows d)))))
            (filter (\<lambda>t. launch_block_time t \<ge> cutoff_time \<and> launch_block_time t > 0) (tokens d))))"

definition strategies_to_test :: "db \<Rightarrow> token \<Rightarrow> real \<Rightarrow> window list \<Rightarrow> (string \<times> outcome) list" where
  "strategies_to_test d tok vol prices =
     (let m = mint tok; launch_time = launch_block_time tok; creator = creator_wallet tok in
      [(''dollar_scalping'', Inr (test_dollar_scalping m launch_time prices)),
       (''rank_based'', Inr (test_rank_based m launch_time prices vol)),
       (''momentum'', Inr (test_momentum d m launch_time prices)),
       (''copy_trading'', Inr (test_copy_trading d m launch_time prices)),
       (''late_opportunity'', Inr (test_late_opportunity d m launch_time prices)),
       (''1m_mc_hunting'', Inr (test_1m_mc_hunting d m launch_time creator prices))])"

text \<open>
  The numbers \<^verbatim>\<open>print_comprehensive_results\<close> prints for each strategy and for the
  batch.  The extra lines of three strategies (average entry score, average buyers,
  tiers copied), computed from the recorded positions, are left out.
\<close>

record strategy_line =
  line_trades :: nat
  line_wins :: nat
  line_losses :: nat
  line_win_rate :: real
  line_total_pnl :: real
  line_avg_pnl :: real
  line_avg_position :: real
  line_1m_hits :: "nat option"

record report =
  strategy_lines :: "(string \<times> strategy_line option) list"
  report_total_trades :: nat
  report_total_wins :: nat
  report_total_losses :: nat
  report_win_rate :: real
  report_total_pnl :: real
  report_per_day :: real
  report_per_trade :: real
  report_best :: string

definition strategy_keys :: "string list" where
  "strategy_keys = [''dollar_scalping'', ''rank_based'', ''momentum'', ''copy_trading'',
                    ''late_opportunity'', ''1m_mc_hunting'']"

definition line_of :: "strategy_results \<Rightarrow> strategy_line option" where
  "line_of s =
     (let trades_count = length (trades_list s) in
      if trades_count = 0 then None
      else Some \<lparr> line_trades = trades_count, line_wins = wins s, line_losses = losses s,
                  line_win_rate = fmul (fdiv (real (wins s)) (real trades_count)) 100,
                  line_total_pnl = total_pnl s,
                  line_avg_pnl = fdiv (total_pnl s) (real trades_count),
                  line_avg_position = py_mean (map position_size_sol (trades_list s)),
                  line_1m_hits = hits_1m s \<rparr>)"

fun best_item :: "(string \<times> strategy_results) \<Rightarrow> results \<Rightarrow> (string \<times> strategy_results)" where
  "best_item b [] = b"
| "best_item b (x # xs) = best_item (if total_pnl (snd x) > total_pnl (snd b) then x else b) xs"

text \<open>
  A missing key raises \<^verbatim>\<open>KeyError\<close> in the per-strategy loop, a zero divisor
  \<^verbatim>\<open>ZeroDivisionError\<close> at the per-day and per-trade lines, and a best key without a
  display name \<^verbatim>\<open>IndexError\<close>.
\<close>

definition print_comprehensive_results :: "results \<Rightarrow> int \<Rightarrow> py_exception + report" where
  "print_comprehensive_results res days =
     (if \<not> list_all (\<lambda>k. map_of res k \<noteq> None) strategy_keys then Inl (Exception ''KeyError'')
      else
        (let shown = map (\<lambda>k. (k, the (map_of res k))) strategy_keys;
             lines = map (\<lambda>(k, s). (k, line_of s)) shown;
             t_pnl = foldl fadd 0.0
                       (map (\<lambda>(k, s). total_pnl s)
                            (filter (\<lambda>(k, s). length (trades_list s) \<noteq> 0) shown));
             t_trades = sum_list (map (\<lambda>(k, s). length (trades_list s)) res);
             t_wins = sum_list (map (\<lambda>(k, s). wins s) res);
             t_losses = sum_list (map (\<lambda>(k, s). losses s) res)
         in if days = 0 \<or> t_trades = 0 then Inl ZeroDivisionError
            else
              (let best = fst (best_item (hd res) (tl res)) in
               if best \<notin> set strategy_keys then Inl (Exception ''IndexError'')
               else Inr \<lparr> strategy_lines = lines, report_total_trades = t_trades,
                          report_total_wins = t_wins, report_total_losses = t_losses,
                          report_win_rate = fmul (fdiv (real t_wins) (real t_trades)) 100,
                          report_total_pnl = t_pnl,
                          report_per_day = fdiv t_pnl (real_of_int days),
                          report_per_trade = fdiv t_pnl (real t_trades),
                          report_best = best \<rparr>)))"

definition run_comprehensive_backtest :: "db \<Rightarrow> int \<Rightarrow> int \<Rightarrow> py_exception + results" where
  "run_comprehensive_backtest d cutoff_time days =
     (let toks = get_tokens_last_n_days d cutoff_time in
      if toks = [] then Inl ZeroDivisionError
      else
        (let qualified = filter (\<lambda>(t, v). v \<ge> 10.0) toks;
             priced = map (\<lambda>(t, v). (t, v, get_price_data d (mint t) (launch_block_time t) 1800))
                          (take 1000 qualified);
             res = run_batch
                     (map (\<lambda>(t, v, prices). strategies_to_test d t v prices)
                          (filter (\<lambda>(t, v, prices). prices \<noteq> []) priced))
                     initial_results
         in case print_comprehensive_results res days of
              Inl e \<Rightarrow> Inl e
            | Inr rep \<Rightarrow> Inr res))"

section \<open>Notions the properties are stated with\<close>

text \<open>
  The exit a strategy records: the exit price and the exit reason of the position it
  returns.
\<close>

definition recorded_exit :: "position option \<Rightarrow> (real \<times> exit_reason) option" where
  "recorded_exit r = map_option (\<lambda>pos. (exit_price pos, exit_reason pos)) r"

text \<open>
  The exit conditions of the five fixed-percentage strategies as the code tests them.
  An exit loop examines a window when its offset from launch is beyond the loop's
  start \<open>scan_from\<close>.  At an examined window the profit-target condition holds when the
  percentage gain of the window's high over the entry price, computed in double
  precision, reaches the target percentage \<open>pct\<close>; the stop-loss condition holds when
  the window's low is below the entry price times the stop multiplier; the timeout
  holds when the offset reaches \<open>timeout\<close>.
\<close>

definition fires :: "int \<Rightarrow> real \<Rightarrow> real \<Rightarrow> int \<Rightarrow> int \<Rightarrow> real \<Rightarrow> window \<Rightarrow> bool" where
  "fires scan_from pct stop timeout launch_time ep p =
     (scan_from < start_time p - launch_time
      \<and> (pct \<le> fmul (fdiv (fsub (high p) ep) ep) 100 \<or> low p < fmul ep stop
          \<or> timeout \<le> start_time p - launch_time))"

text \<open>
  The fixed priority order at a window where a condition holds: the profit target at
  the entry price times the target multiplier, else the stop loss at the entry price
  times the stop multiplier, else the timeout at the window's close.
\<close>

definition decide ::
  "real \<Rightarrow> real \<Rightarrow> real \<Rightarrow> exit_reason \<Rightarrow> exit_reason \<Rightarrow> exit_reason \<Rightarrow> real \<Rightarrow> window
     \<Rightarrow> real \<times> exit_reason" where
  "decide pct target stop r_target r_stop r_time ep w =
     (if pct \<le> fmul (fdiv (fsub (high w) ep) ep) 100 then (fmul ep target, r_target)
      else if low w < fmul ep stop then (fmul ep stop, r_stop)
      else (close w, r_time))"

text \<open>
  The score-gated strategy: the market cap of a window is its high times the supply
  of \<^verbatim>\<open>1_000_000_000\<close> divided by \<^verbatim>\<open>1e9\<close>; the profit-target condition is that the
  high reaches the entry price times the target multiplier.
\<close>

definition fires_1m :: "real \<Rightarrow> real \<Rightarrow> int \<Rightarrow> real \<Rightarrow> window \<Rightarrow> bool" where
  "fires_1m target stop launch_time ep p =
     (120 < start_time p - launch_time
      \<and> (1000000 \<le> fdiv (fmul (high p) 1000000000) 1000000000 \<or> fmul ep target \<le> high p
          \<or> low p < fmul ep stop \<or> 420 \<le> start_time p - launch_time))"

definition decide_1m :: "real \<Rightarrow> real \<Rightarrow> real \<Rightarrow> window \<Rightarrow> real \<times> exit_reason" where
  "decide_1m target stop ep w =
     (if 1000000 \<le> fdiv (fmul (high w) 1000000000) 1000000000 then (close w, Hit_1m_mc)
      else if fmul ep target \<le> high w then (fmul ep target, Target_pct target)
      else if low w < fmul ep stop then (fmul ep stop, Stop_loss_pct stop)
      else (close w, Time_420s))"

text \<open>
  The exit the specification prescribes for a fixed-percentage strategy: at the first
  window after the entry window at which a condition holds, the profit target if the
  window's high reaches the entry price times the target multiplier, else the stop
  loss if the low falls below the entry price times the stop multiplier, else the
  timeout.  \<open>entry_offset\<close> is the entry window's offset from launch.
\<close>

fun spec_exit ::
  "real \<Rightarrow> real \<Rightarrow> int \<Rightarrow> exit_reason \<Rightarrow> exit_reason \<Rightarrow> exit_reason \<Rightarrow> int \<Rightarrow> real \<Rightarrow> int
     \<Rightarrow> window list \<Rightarrow> real \<times> exit_reason" where
  "spec_exit target stop timeout r_target r_stop r_time launch_time ep entry_offset [] = (ep, Time)"
| "spec_exit target stop timeout r_target r_stop r_time launch_time ep entry_offset (p # ps) =
     (if start_time p - launch_time \<le> entry_offset
      then spec_exit target stop timeout r_target r_stop r_time launch_time ep entry_offset ps
      else if fmul ep target \<le> high p then (fmul ep target, r_target)
      else if low p < fmul ep stop then (fmul ep stop, r_stop)
      else if timeout \<le> start_time p - launch_time then (close p, r_time)
      else spec_exit target stop timeout r_target r_stop r_time launch_time ep entry_offset ps)"

text \<open>
  The entry window of the rank-based strategy: the first window whose offset from
  launch is between 60 and 120 seconds.
\<close>

definition rank_entry :: "int \<Rightarrow> window list \<Rightarrow> window option" where
  "rank_entry launch_time prices =
     find (\<lambda>p. 60 \<le> start_time p - launch_time \<and> start_time p - launch_time \<le> 120) prices"

text \<open>The first three components of the score-gated exit loop's result.\<close>

definition exit_of :: "real \<times> exit_reason \<times> int option \<times> real \<Rightarrow> real \<times> exit_reason \<times> int option" where
  "exit_of x = (case x of (xp, reason, fired, peak) \<Rightarrow> (xp, reason, fired))"

text \<open>The threshold tables of the specification's signal table.\<close>

definition velocity_tier :: "real \<Rightarrow> real" where
  "velocity_tier v = (if v \<ge> 1000 then 3.0 else if v \<ge> 500 then 2.0 else if v \<ge> 200 then 1.0 else 0.0)"

definition overlap_tier :: "nat \<Rightarrow> real" where
  "overlap_tier n = (if n \<ge> 3 then 2.0 else if n = 2 then 1.5 else if n = 1 then 1.0 else 0.0)"



text \<open>
  The market-cap velocity of the specification: the change of the estimated market
  cap (close times the supply of 1e9) over the 30 seconds before instant \<open>t\<close>, per
  minute, computed in double precision; undefined without price data at either end.
\<close>

definition mc_velocity_30s :: "db \<Rightarrow> string \<Rightarrow> int \<Rightarrow> real option" where
  "mc_velocity_30s d m t =
     (case close_at d m t of
        None \<Rightarrow> None
      | Some c \<Rightarrow>
          (case close_at d m (t - 30) of
             None \<Rightarrow> None
           | Some b \<Rightarrow>
               Some (fmul (fdiv (fsub (fmul c 1000000000) (fmul b 1000000000)) 30) 60)))"

text \<open>A wallet whose reputation tier is in the top three of the five tiers.\<close>

definition reputable :: "db \<Rightarrow> string \<Rightarrow> bool" where
  "reputable d w = (get_wallet_tier d w \<in> {Tier_S, Tier_A, Tier_B})"

text \<open>
  The buys of an asset in the closed interval of offsets \<open>[a, b]\<close> after launch: as a
  set, as the list in the order of their instants (the order of the table among equal
  instants), and as the list in the order of the table.
\<close>

definition buys_in :: "db \<Rightarrow> string \<Rightarrow> int \<Rightarrow> int \<Rightarrow> int \<Rightarrow> trade set" where
  "buys_in d m launch_time a b =
     {t \<in> set (trades d). trade_mint t = m \<and> side t = ''buy''
        \<and> launch_time + a \<le> block_time t \<and> block_time t \<le> launch_time + b}"








text \<open>
  The statistics of one strategy: trade count, wins, losses and total P&L; their sum;
  the three counts alone; and the number of faults in a batch of outcomes.
\<close>

definition statistics :: "strategy_results \<Rightarrow> nat \<times> nat \<times> nat \<times> real" where
  "statistics s = (length (trades_list s), wins s, losses s, total_pnl s)"

fun add_statistics :: "nat \<times> nat \<times> nat \<times> real \<Rightarrow> nat \<times> nat \<times> nat \<times> real \<Rightarrow> nat \<times> nat \<times> nat \<times> real" where
  "add_statistics (n, w, l, p) (n', w', l', p') = (n + n', w + w', l + l', fadd p p')"

definition statistics_of :: "string \<Rightarrow> results \<Rightarrow> nat \<times> nat \<times> nat \<times> real" where
  "statistics_of strategy_name res =
     (case map_of res strategy_name of None \<Rightarrow> (0, 0, 0, 0) | Some s \<Rightarrow> statistics s)"

definition counts :: "strategy_results \<Rightarrow> nat \<times> nat \<times> nat" where
  "counts s = (length (trades_list s), wins s, losses s)"

fun add_counts :: "nat \<times> nat \<times> nat \<Rightarrow> nat \<times> nat \<times> nat \<Rightarrow> nat \<times> nat \<times> nat" where
  "add_counts (n, w, l) (n', w', l') = (n + n', w + w', l + l')"

definition counts_of :: "string \<Rightarrow> results \<Rightarrow> nat \<times> nat \<times> nat" where
  "counts_of strategy_name res =
     (case map_of res strategy_name of None \<Rightarrow> (0, 0, 0) | Some s \<Rightarrow> counts s)"

definition total_pnl_of :: "string \<Rightarrow> results \<Rightarrow> real" where
  "total_pnl_of strategy_name res =
     (case map_of res strategy_name of None \<Rightarrow> 0 | Some s \<Rightarrow> total_pnl s)"

definition fault_count :: "(string \<times> outcome) list list \<Rightarrow> nat" where
  "fault_count batch = length (filter (\<lambda>(k, oc). isl oc) (concat batch))"


text \<open>
  The positions a batch of outcomes holds for one strategy, in batch order, and the
  counts of a list of positions: how many, how many with P&L above zero, how many
  without.
\<close>

fun recorded_in :: "string \<Rightarrow> (string \<times> outcome) list \<Rightarrow> position list" where
  "recorded_in k [] = []"
| "recorded_in k ((n, oc) # rest) =
     (case oc of
        Inl e \<Rightarrow> []
      | Inr None \<Rightarrow> []
      | Inr (Some r) \<Rightarrow> if n = k then [r] else []) @ recorded_in k rest"

definition recorded :: "string \<Rightarrow> (string \<times> outcome) list list \<Rightarrow> position list" where
  "recorded k batch = concat (map (recorded_in k) batch)"

definition tally :: "position list \<Rightarrow> nat \<times> nat \<times> nat" where
  "tally ps = (length ps, length (filter (\<lambda>r. pnl_sol r > 0) ps),
               length (filter (\<lambda>r. \<not> pnl_sol r > 0) ps))"

section \<open>Concrete scenarios\<close>

text \<open>
  A price window of the asset \<open>m\<close>: start time, close, high, low.  As with a literal of
  the source, a decimal stands for the double nearest to it.
\<close>

definition win :: "int \<Rightarrow> real \<Rightarrow> real \<Rightarrow> real \<Rightarrow> window" where
  "win t c h lo = \<lparr> window_mint = ''m'', window_sec = 60, start_time = t, close = D c,
                    high = D h, low = D lo, vol_sol = 1 \<rparr>"

text \<open>
  Scenarios for the asset \<open>m\<close> launched at instant 1000: a buy (wallet, amount,
  instant), a wallet's statistics row (net P&L, profit score, win rate, number of
  trades), and a database of trades, windows and wallet statistics.
\<close>

definition buy :: "string \<Rightarrow> real \<Rightarrow> int \<Rightarrow> trade" where
  "buy w a t = \<lparr> trade_mint = ''m'', trader = w, amount_sol = D a, side = ''buy'', block_time = t \<rparr>"

definition stats_row :: "string \<Rightarrow> real \<Rightarrow> real \<Rightarrow> real \<Rightarrow> int \<Rightarrow> wallet_stat" where
  "stats_row w pnl ps wr tt =
     \<lparr> wallet = w, net_pnl_sol = Some (D pnl), create_count = Some 0, profit_score = Some (D ps),
       win_rate = Some (D wr), total_trades = Some tt \<rparr>"

definition db_of :: "trade list \<Rightarrow> window list \<Rightarrow> wallet_stat list \<Rightarrow> db" where
  "db_of ts ws rs =
     \<lparr> tokens = [\<lparr> mint = ''m'', launch_block_time = 1000, creator_wallet = ''c'',
                    initial_liquidity_sol = None \<rparr>],
       trades = ts, windows = ws, wallet_stats = rs \<rparr>"

text \<open>
  Closes 0.0000005, 0.000001, 0.000001 and 0.000002 in the minute windows that start
  60 seconds before launch, at launch, and 60 and 120 seconds after.
\<close>

definition db_velocity :: db where
  "db_velocity =
     db_of [] [win 940 0.0000005 0.0000005 0.0000005, win 1000 0.000001 0.000001 0.000001,
               win 1060 0.000001 0.000001 0.000001, win 1120 0.000002 0.000002 0.000002] []"


text \<open>
  Wallet \<open>s\<close> is of tier S with a net P&L of 50; wallet \<open>p\<close> has a net P&L of 200
  and is of tier C.  In \<open>db_repeat\<close> wallet \<open>s\<close> buys three times; in \<open>db_single\<close>
  each wallet buys once.
\<close>

definition db_repeat :: db where
  "db_repeat =
     db_of [buy ''s'' 1 1010, buy ''s'' 1 1020, buy ''s'' 1 1030] []
           [stats_row ''s'' 50 90 0.8 60, stats_row ''p'' 200 60 0.6 10]"

definition db_single :: db where
  "db_single =
     db_of [buy ''s'' 1 1010, buy ''p'' 1 1020] []
           [stats_row ''s'' 50 90 0.8 60, stats_row ''p'' 200 60 0.6 10]"




text \<open>
  Price paths from launch instant 0.  In \<open>prices_entry\<close> the window at offset 90 is
  the rank-based entry window and has a high of 1.5.  In \<open>prices_boundary\<close> the entry
  window at offset 60 closes at 7 and the next window has a high of 9.1.
\<close>

definition prices_entry :: "window list" where
  "prices_entry = [win 30 1 1 1, win 90 1 1.5 0.9, win 150 1 1 1]"

definition prices_boundary :: "window list" where
  "prices_boundary = [win 0 7 7 7, win 60 7 7 7, win 120 7.5 9.1 7]"

text \<open>
  An active asset, launched at instant 1000 by creator \<open>c\<close>.  Each of its 22 minute
  windows closes at 1 with a high of 2 and a low of 0.5, so the target and the stop
  condition of every strategy hold together at every window; in \<open>prices_moon\<close> the
  window at offset 180 has a high of 2000000.  Ten wallets buy 1 each in the first
  minute, three of them twice more in the second minute, and ten wallets buy 1 each
  20 minutes after launch.  Wallets \<open>a\<close>, \<open>b\<close> and \<open>k\<close> are of tier S; the creator
  \<open>c\<close> has a net P&L of 600 from 6 assets.
\<close>

definition prices_active :: "window list" where
  "prices_active =
     [win 1000 1 2 0.5, win 1060 1 2 0.5, win 1120 1 2 0.5, win 1180 1 2 0.5,
      win 1240 1 2 0.5, win 1300 1 2 0.5, win 1360 1 2 0.5, win 1420 1 2 0.5,
      win 1480 1 2 0.5, win 1540 1 2 0.5, win 1600 1 2 0.5, win 1660 1 2 0.5,
      win 1720 1 2 0.5, win 1780 1 2 0.5, win 1840 1 2 0.5, win 1900 1 2 0.5,
      win 1960 1 2 0.5, win 2020 1 2 0.5, win 2080 1 2 0.5, win 2140 1 2 0.5,
      win 2200 1 2 0.5, win 2260 1 2 0.5]"

definition prices_moon :: "window list" where
  "prices_moon = [win 1000 1 2 0.5, win 1060 1 2 0.5, win 1120 1 2 0.5, win 1180 1.5 2000000 0.5]"

definition db_active :: db where
  "db_active =
     db_of ([buy ''a'' 1 1005, buy ''b'' 1 1010, buy ''k'' 1 1015, buy ''d'' 1 1020,
             buy ''e'' 1 1025, buy ''f'' 1 1030, buy ''g'' 1 1035, buy ''h'' 1 1040,
             buy ''i'' 1 1045, buy ''j'' 1 1050,
             buy ''a'' 1 1070, buy ''b'' 1 1075, buy ''k'' 1 1080,
             buy ''a'' 1 1100, buy ''b'' 1 1105, buy ''k'' 1 1110,
             buy ''a'' 1 2205, buy ''b'' 1 2210, buy ''k'' 1 2215, buy ''d'' 1 2220,
             buy ''e'' 1 2225, buy ''f'' 1 2230, buy ''g'' 1 2235, buy ''h'' 1 2240,
             buy ''i'' 1 2245, buy ''j'' 1 2250])
           prices_active
           [stats_row ''a'' 300 90 0.8 60, stats_row ''b'' 300 90 0.8 60,
            stats_row ''k'' 300 90 0.8 60,
            (stats_row ''c'' 600 0 0 0) \<lparr> create_count := Some 6 \<rparr>]"

text \<open>
  Positions for concrete batches: a dollar-scalping win at the 3 percent target, a
  rank-based win at the 30 percent target, a rank-based loss at the 20 percent stop,
  and the rank-based positions entered at 1 that time out at a close of 1.15, 1.2 and
  1.1, with price paths on which the strategy returns them.
\<close>

definition scalp_win :: position where
  "scalp_win = mk_position ''dollar_scalping'' (fdiv 1.0 SOL_PRICE_USD) 1 (D 1.03) Profit_3pct"

definition rank_win :: position where
  "rank_win = mk_position ''rank_based'' (fdiv 5.0 SOL_PRICE_USD) 1 (D 1.30) Target_30pct"

definition rank_loss :: position where
  "rank_loss = mk_position ''rank_based'' (fdiv 5.0 SOL_PRICE_USD) 1 (D 0.80) Stop_loss_20pct"

definition timeout_115 :: position where
  "timeout_115 = mk_position ''rank_based'' (fdiv 5.0 SOL_PRICE_USD) 1 (D 1.15) Time_30s"

definition timeout_120 :: position where
  "timeout_120 = mk_position ''rank_based'' (fdiv 5.0 SOL_PRICE_USD) 1 (D 1.2) Time_30s"

definition timeout_110 :: position where
  "timeout_110 = mk_position ''rank_based'' (fdiv 5.0 SOL_PRICE_USD) 1 (D 1.1) Time_30s"

definition prices_115 :: "window list" where
  "prices_115 = [win 0 1 1 1, win 60 1 1 1, win 120 1.15 1.15 1.15]"

definition prices_120 :: "window list" where
  "prices_120 = [win 0 1 1 1, win 60 1 1 1, win 120 1.2 1.2 1.2]"

definition prices_110 :: "window list" where
  "prices_110 = [win 0 1 1 1, win 60 1 1 1, win 120 1.1 1.1 1.1]"

text \<open>
  Two batches of three assets each, holding the same three rank-based positions in two
  orders, and the second batch split into its first asset and the other two.
\<close>

definition batch_a :: "(string \<times> outcome) list list" where
  "batch_a = [[(''rank_based'', Inr (Some (timeout_115)))],
              [(''rank_based'', Inr (Some (timeout_120)))],
              [(''rank_based'', Inr (Some (timeout_110)))]]"

definition batch_b :: "(string \<times> outcome) list list" where
  "batch_b = [[(''rank_based'', Inr (Some (timeout_115)))],
              [(''rank_based'', Inr (Some (timeout_110)))],
              [(''rank_based'', Inr (Some (timeout_120)))]]"

definition batch_b_first :: "(string \<times> outcome) list list" where
  "batch_b_first = [[(''rank_based'', Inr (Some timeout_115))]]"

definition batch_b_rest :: "(string \<times> outcome) list list" where
  "batch_b_rest = [[(''rank_based'', Inr (Some timeout_110))],
                   [(''rank_based'', Inr (Some timeout_120))]]"

section \<open>Facts of double-precision arithmetic\<close>

lemma rnd_0 [simp]: "rnd 0 = 0"
  by (simp add: rnd_def)

lemma rhe_of_int: "rhe (of_int n) = n"
  by (simp add: rhe_def)

lemma rhe_bounds: "y - 1/2 \<le> of_int (rhe y) \<and> of_int (rhe y) \<le> y + 1/2"
  unfolding rhe_def Let_def by (auto; linarith)

lemma floor_log2_eq:
  assumes "2 powi k \<le> x" "x < 2 powi (k + 1)"
  shows "\<lfloor>log 2 x\<rfloor> = k"
proof -
  have x: "0 < x" using assms(1) by (smt (verit) zero_less_power_int)
  have "2 powr (real_of_int k) \<le> x" using assms(1) by (simp add: powr_real_of_int')
  moreover have "x < 2 powr (real_of_int (k + 1))"
    using assms(2) powr_real_of_int' [of 2 "k + 1"] by simp
  ultimately show ?thesis using x
    by (metis floor_log_eq_powr_iff one_less_numeral_iff semiring_norm(76))
qed

lemma floor_log2_bounds:
  assumes "0 < x"
  shows "2 powi \<lfloor>log 2 x\<rfloor> \<le> x \<and> x < 2 powi (\<lfloor>log 2 x\<rfloor> + 1)"
proof -
  have "\<lfloor>log 2 x\<rfloor> = \<lfloor>log 2 x\<rfloor>" by simp
  then have "2 powr (real_of_int \<lfloor>log 2 x\<rfloor>) \<le> x \<and> x < 2 powr (real_of_int (\<lfloor>log 2 x\<rfloor> + 1))"
    using floor_log_eq_powr_iff [of x 2 "\<lfloor>log 2 x\<rfloor>"] assms by simp
  then show ?thesis
    using powr_real_of_int' [of 2 "\<lfloor>log 2 x\<rfloor>"] powr_real_of_int' [of 2 "\<lfloor>log 2 x\<rfloor> + 1"] by simp
qed

text \<open>
  The rule by which the rounding of a concrete number is computed: \<open>e\<close> is the
  exponent of the last place.
\<close>

lemma rnd_eval:
  assumes "x \<noteq> 0" "2 powi (e + 52) \<le> \<bar>x\<bar>" "\<bar>x\<bar> < 2 powi (e + 53)"
  shows "rnd x = of_int (rhe (x / 2 powi e)) * 2 powi e"
proof -
  have "\<lfloor>log 2 \<bar>x\<bar>\<rfloor> = e + 52"
    using floor_log2_eq [of "e + 52" "\<bar>x\<bar>"] assms by (simp add: add.commute add.left_commute)
  then show ?thesis using assms(1) by (simp add: rnd_def)
qed

lemma powi_le_iff: "((2::real) powi a \<le> 2 powi b) = (a \<le> b)"
proof
  assume h: "(2::real) powi a \<le> 2 powi b"
  show "a \<le> b"
  proof (rule ccontr)
    assume "\<not> a \<le> b"
    then have "(2::real) powi b < 2 powi a" by (intro power_int_strict_increasing) simp_all
    with h show False by simp
  qed
next
  assume "a \<le> b"
  then show "(2::real) powi a \<le> 2 powi b" by (intro power_int_increasing) simp_all
qed

text \<open>A number with a significand of at most 53 bits is a double: rounding keeps it.\<close>

lemma rnd_exact:
  assumes "\<bar>m\<bar> \<le> 2 ^ 53"
  shows "rnd (of_int m * 2 powi e) = of_int m * 2 powi e"
proof (cases "m = 0")
  case True
  then show ?thesis by (simp add: rnd_def)
next
  case False
  define x :: real where "x = of_int m * 2 powi e"
  define k where "k = \<lfloor>log 2 \<bar>x\<bar>\<rfloor> - 52"
  have x0: "x \<noteq> 0" using False by (simp add: x_def)
  have ax: "\<bar>x\<bar> = of_int \<bar>m\<bar> * 2 powi e" by (simp add: x_def abs_mult)
  have b: "2 powi (k + 52) \<le> \<bar>x\<bar>" "\<bar>x\<bar> < 2 powi (k + 53)"
    using floor_log2_bounds [of "\<bar>x\<bar>"] x0 by (simp_all add: k_def add.commute)
  have mb: "(of_int \<bar>m\<bar> :: real) \<le> 2 ^ 53" using assms by (metis of_int_le_iff of_int_numeral of_int_power)
  have "\<exists>j. x / 2 powi k = of_int j"
  proof (cases "k \<le> e")
    case True
    have "x / 2 powi k = of_int m * 2 powi (e - k)"
      by (simp add: x_def power_int_diff)
    also have "\<dots> = of_int m * 2 ^ nat (e - k)"
      using True by (simp add: power_int_def)
    also have "\<dots> = of_int (m * 2 ^ nat (e - k))" by simp
    finally show ?thesis by blast
  next
    case False
    have "\<bar>x\<bar> \<le> 2 ^ 53 * 2 powi e" using mb by (simp add: ax)
    also have "\<dots> = 2 powi (e + 53)" by (simp add: power_int_add)
    finally have "2 powi (k + 52) \<le> (2::real) powi (e + 53)" using b(1) by linarith
    then have "k + 52 \<le> e + 53" by (simp only: powi_le_iff)
    with False have ke: "k = e + 1" by linarith
    have "2 powi (e + 53) \<le> of_int \<bar>m\<bar> * (2::real) powi e" using b(1) by (simp add: ke ax add.commute)
    then have "2 ^ 53 * 2 powi e \<le> of_int \<bar>m\<bar> * (2::real) powi e" by (simp add: power_int_add)
    then have "(2::real) ^ 53 \<le> of_int \<bar>m\<bar>" by simp
    with mb have "(of_int \<bar>m\<bar> :: real) = 2 ^ 53" by linarith
    then have "\<bar>m\<bar> = 2 ^ 53" by (metis of_int_eq_iff of_int_numeral of_int_power)
    then have "m = 2 ^ 53 \<or> m = - (2 ^ 53)" by linarith
    then have "x / 2 powi k = of_int (2 ^ 52) \<or> x / 2 powi k = of_int (- (2 ^ 52))"
      by (auto simp: x_def ke power_int_add)
    then show ?thesis by blast
  qed
  then obtain j where j: "x / 2 powi k = of_int j" by blast
  have "rnd x = of_int (rhe (x / 2 powi k)) * 2 powi k"
    using x0 by (simp add: rnd_def k_def Let_def)
  also have "\<dots> = of_int j * 2 powi k" by (simp only: j rhe_of_int)
  also have "\<dots> = x" using j by (simp add: field_simps)
  finally show ?thesis by (simp add: x_def)
qed

lemma rnd_of_int: "\<bar>m\<bar> \<le> 2 ^ 53 \<Longrightarrow> rnd (of_int m) = of_int m"
  using rnd_exact [of m 0] by simp

lemma rnd_numeral [simp]: "numeral n \<le> (9007199254740992::int) \<Longrightarrow> rnd (numeral n) = numeral n"
  using rnd_of_int [of "numeral n"] by simp

lemma rnd_1 [simp]: "rnd 1 = 1"
  using rnd_of_int [of 1] by simp

text \<open>The rounding of a number, its scaled significand and its relative error.\<close>

lemma rnd_scaled:
  assumes "x \<noteq> 0"
  obtains k where "rnd x = of_int (rhe (x / 2 powi k)) * 2 powi k"
    and "2 ^ 52 \<le> \<bar>x / 2 powi k\<bar>" and "\<bar>x / 2 powi k\<bar> < 2 ^ 53"
proof -
  define k where "k = \<lfloor>log 2 \<bar>x\<bar>\<rfloor> - 52"
  have b: "2 powi (k + 52) \<le> \<bar>x\<bar>" "\<bar>x\<bar> < 2 powi (k + 53)"
    using floor_log2_bounds [of "\<bar>x\<bar>"] assms by (simp_all add: k_def add.commute)
  have p: "(0::real) < 2 powi k" by simp
  have a: "\<bar>x / 2 powi k\<bar> = \<bar>x\<bar> / 2 powi k" by (simp add: abs_divide)
  have "2 ^ 52 * 2 powi k \<le> \<bar>x\<bar>" using b(1) by (simp add: power_int_add mult.commute)
  then have l: "2 ^ 52 \<le> \<bar>x / 2 powi k\<bar>" unfolding a using p by (simp add: le_divide_eq)
  have "\<bar>x\<bar> < 2 ^ 53 * 2 powi k" using b(2) by (simp add: power_int_add mult.commute)
  then have u: "\<bar>x / 2 powi k\<bar> < 2 ^ 53" unfolding a using p by (simp add: divide_less_eq)
  have "rnd x = of_int (rhe (x / 2 powi k)) * 2 powi k"
    using assms by (simp add: rnd_def k_def Let_def)
  then show ?thesis using l u that by blast
qed

lemma rnd_form:
  assumes "x \<noteq> 0"
  shows "\<exists>m e. rnd x = of_int m * 2 powi e \<and> \<bar>m\<bar> \<le> 2 ^ 53"
proof -
  obtain k where k: "rnd x = of_int (rhe (x / 2 powi k)) * 2 powi k"
    "2 ^ 52 \<le> \<bar>x / 2 powi k\<bar>" "\<bar>x / 2 powi k\<bar> < 2 ^ 53"
    using rnd_scaled [OF assms] by blast
  define y where "y = x / 2 powi k"
  have "real_of_int (rhe y) \<le> y + 1/2" "y - 1/2 \<le> real_of_int (rhe y)"
    using rhe_bounds [of y] by simp_all
  moreover have "\<bar>y\<bar> < 2 ^ 53" using k(3) by (simp only: y_def)
  then have "y < 2 ^ 53" "- (2 ^ 53) < y" by linarith+
  ultimately have "real_of_int (rhe y) < 2 ^ 53 + 1" "- (2 ^ 53) - 1 < real_of_int (rhe y)"
    by linarith+
  then have "real_of_int (rhe y) < real_of_int (2 ^ 53 + 1)" "real_of_int (- (2 ^ 53) - 1) < real_of_int (rhe y)"
    by simp_all
  then have "rhe y < 2 ^ 53 + 1" "- (2 ^ 53) - 1 < rhe y"
    by (simp_all only: of_int_less_iff)
  then have "\<bar>rhe y\<bar> \<le> 2 ^ 53" by linarith
  then show ?thesis using k(1) unfolding y_def by blast
qed

lemma rnd_idem [simp]: "rnd (rnd x) = rnd x"
proof (cases "x = 0")
  case True
  then show ?thesis by simp
next
  case False
  then obtain m e where "rnd x = of_int m * 2 powi e" "\<bar>m\<bar> \<le> 2 ^ 53"
    using rnd_form by blast
  then show ?thesis using rnd_exact [of m e] by simp
qed


text \<open>Integers of at most 53 bits are doubles.\<close>

lemma rnd_neg_numeral [simp]:
  "numeral n \<le> (9007199254740992::int) \<Longrightarrow> rnd (- numeral n) = - numeral n"
  using rnd_of_int [of "- numeral n"] by simp

lemma rnd_of_nat: "n \<le> 2 ^ 53 \<Longrightarrow> rnd (real n) = real n"
  using rnd_of_int [of "int n"] by simp

lemma rnd_half_int:
  "\<bar>m\<bar> \<le> 2 ^ 53 \<Longrightarrow> rnd (of_int m / 2) = of_int m / 2"
  using rnd_exact [of m "-1"] by simp

lemma D_idem [simp]: "rnd (D x) = D x"
  by (simp add: D_def)

lemmas fops = fadd_def fsub_def fmul_def fdiv_def D_def

section \<open>Roundings of the concrete scenarios\<close>

text \<open>
  The doubles that the computations of the scenarios below meet, each obtained from
  its exponent by \<open>rnd_eval\<close>.
\<close>

lemma double_1: "rnd (3 / 2) = 3 / 2"
  by (subst rnd_eval [where e = "-52"]) (simp_all add: rhe_def power_int_minus)

lemma double_2: "rnd (9 / 10) = 8106479329266893 / 9007199254740992"
  by (subst rnd_eval [where e = "-53"]) (simp_all add: rhe_def power_int_minus)

lemma double_3: "rnd (5 / 186) = 7748128391175047 / 288230376151711744"
  by (subst rnd_eval [where e = "-58"]) (simp_all add: rhe_def power_int_minus)

lemma double_4: "rnd (13 / 10) = 5854679515581645 / 4503599627370496"
  by (subst rnd_eval [where e = "-52"]) (simp_all add: rhe_def power_int_minus)

lemma double_5: "rnd (4 / 5) = 3602879701896397 / 4503599627370496"
  by (subst rnd_eval [where e = "-53"]) (simp_all add: rhe_def power_int_minus)

lemma double_6: "rnd (1 / 2) = 1 / 2"
  by (subst rnd_eval [where e = "-53"]) (simp_all add: rhe_def power_int_minus)

lemma double_7: "rnd (5854679515581645 / 4503599627370496) = 5854679515581645 / 4503599627370496"
  by (subst rnd_eval [where e = "-52"]) (simp_all add: rhe_def power_int_minus)

lemma double_8: "rnd (1351079888211149 / 4503599627370496) = 1351079888211149 / 4503599627370496"
  by (subst rnd_eval [where e = "-54"]) (simp_all add: rhe_def power_int_minus)

lemma double_9: "rnd (10468340440594412250822955999003 / 1298074214633706907132624082305024) = 4648877034705029 / 576460752303423488"
  by (subst rnd_eval [where e = "-59"]) (simp_all add: rhe_def power_int_minus)

lemma double_10: "rnd (432345564227567697 / 288230376151711744) = 6755399441055745 / 4503599627370496"
  by (subst rnd_eval [where e = "-52"]) (simp_all add: rhe_def power_int_minus)

lemma double_11: "rnd (33776997205278725 / 1125899906842624) = 8444249301319681 / 281474976710656"
  by (subst rnd_eval [where e = "-48"]) (simp_all add: rhe_def power_int_minus)

lemma double_12: "rnd (8 / 5) = 3602879701896397 / 2251799813685248"
  by (subst rnd_eval [where e = "-52"]) (simp_all add: rhe_def power_int_minus)

lemma double_13: "rnd (17 / 20) = 7656119366529843 / 9007199254740992"
  by (subst rnd_eval [where e = "-53"]) (simp_all add: rhe_def power_int_minus)

lemma double_14: "rnd (1351079888211149 / 2251799813685248) = 1351079888211149 / 2251799813685248"
  by (subst rnd_eval [where e = "-53"]) (simp_all add: rhe_def power_int_minus)

lemma double_15: "rnd (33776997205278725 / 562949953421312) = 8444249301319681 / 140737488355328"
  by (subst rnd_eval [where e = "-47"]) (simp_all add: rhe_def power_int_minus)

lemma double_16: "rnd (103 / 100) = 4638707616191611 / 4503599627370496"
  by (subst rnd_eval [where e = "-52"]) (simp_all add: rhe_def power_int_minus)

lemma double_17: "rnd (49 / 50) = 2206763817411543 / 2251799813685248"
  by (subst rnd_eval [where e = "-53"]) (simp_all add: rhe_def power_int_minus)

lemma double_18: "rnd (6 / 5) = 5404319552844595 / 4503599627370496"
  by (subst rnd_eval [where e = "-52"]) (simp_all add: rhe_def power_int_minus)

lemma double_19: "rnd (7 / 10) = 3152519739159347 / 4503599627370496"
  by (subst rnd_eval [where e = "-53"]) (simp_all add: rhe_def power_int_minus)

lemma double_20: "rnd (3 / 5) = 5404319552844595 / 9007199254740992"
  by (subst rnd_eval [where e = "-53"]) (simp_all add: rhe_def power_int_minus)

lemma double_21: "rnd (3 / 10) = 5404319552844595 / 18014398509481984"
  by (subst rnd_eval [where e = "-54"]) (simp_all add: rhe_def power_int_minus)

lemma double_22: "rnd (1 / 100) = 5764607523034235 / 576460752303423488"
  by (subst rnd_eval [where e = "-59"]) (simp_all add: rhe_def power_int_minus)

lemma double_23: "rnd (3 / 100) = 1080863910568919 / 36028797018963968"
  by (subst rnd_eval [where e = "-58"]) (simp_all add: rhe_def power_int_minus)

lemma double_24: "rnd (1 / 20) = 3602879701896397 / 72057594037927936"
  by (subst rnd_eval [where e = "-57"]) (simp_all add: rhe_def power_int_minus)

lemma double_25: "rnd (1 / 10) = 3602879701896397 / 36028797018963968"
  by (subst rnd_eval [where e = "-56"]) (simp_all add: rhe_def power_int_minus)

lemma double_26: "rnd (1 / 186) = 3099251356470019 / 576460752303423488"
  by (subst rnd_eval [where e = "-60"]) (simp_all add: rhe_def power_int_minus)

lemma double_27: "rnd (2206763817411543 / 2251799813685248) = 2206763817411543 / 2251799813685248"
  by (subst rnd_eval [where e = "-53"]) (simp_all add: rhe_def power_int_minus)

lemma double_28: "rnd (4638707616191611 / 4503599627370496) = 4638707616191611 / 4503599627370496"
  by (subst rnd_eval [where e = "-52"]) (simp_all add: rhe_def power_int_minus)

lemma double_29: "rnd (1 / 2000000) = 4722366482869645 / 9444732965739290427392"
  by (subst rnd_eval [where e = "-73"]) (simp_all add: rhe_def power_int_minus)

lemma double_30: "rnd (1 / 1000000) = 4722366482869645 / 4722366482869645213696"
  by (subst rnd_eval [where e = "-72"]) (simp_all add: rhe_def power_int_minus)

lemma double_31: "rnd (1 / 500000) = 4722366482869645 / 2361183241434822606848"
  by (subst rnd_eval [where e = "-71"]) (simp_all add: rhe_def power_int_minus)

lemma double_32: "rnd (9223372036854775390625 / 4611686018427387904) = 2000"
  by (subst rnd_eval [where e = "-42"]) (simp_all add: rhe_def power_int_minus)

lemma double_33: "rnd (9223372036854775390625 / 9223372036854775808) = 1000"
  by (subst rnd_eval [where e = "-43"]) (simp_all add: rhe_def power_int_minus)

lemma double_34: "rnd (100 / 3) = 4691249611844267 / 140737488355328"
  by (subst rnd_eval [where e = "-47"]) (simp_all add: rhe_def power_int_minus)

lemma double_35: "rnd (70368744177664005 / 35184372088832) = 8796093022208001 / 4398046511104"
  by (subst rnd_eval [where e = "-42"]) (simp_all add: rhe_def power_int_minus)

lemma double_36: "rnd (9223372036854775390625 / 18446744073709551616) = 500"
  by (subst rnd_eval [where e = "-44"]) (simp_all add: rhe_def power_int_minus)

lemma double_37: "rnd (50 / 3) = 4691249611844267 / 281474976710656"
  by (subst rnd_eval [where e = "-48"]) (simp_all add: rhe_def power_int_minus)

lemma double_38: "rnd (70368744177664005 / 70368744177664) = 8796093022208001 / 8796093022208"
  by (subst rnd_eval [where e = "-43"]) (simp_all add: rhe_def power_int_minus)

lemma double_39: "rnd (4722366482869645 / 4722366482869645213696) = 4722366482869645 / 4722366482869645213696"
  by (subst rnd_eval [where e = "-72"]) (simp_all add: rhe_def power_int_minus)

lemma double_40: "rnd (1000 / 3) = 5864062014805333 / 17592186044416"
  by (subst rnd_eval [where e = "-44"]) (simp_all add: rhe_def power_int_minus)

lemma double_41: "rnd (23 / 20) = 2589569785738035 / 2251799813685248"
  by (subst rnd_eval [where e = "-52"]) (simp_all add: rhe_def power_int_minus)

lemma double_42: "rnd (337769972052787 / 2251799813685248) = 337769972052787 / 2251799813685248"
  by (subst rnd_eval [where e = "-55"]) (simp_all add: rhe_def power_int_minus)

lemma double_43: "rnd (8444249301319675 / 562949953421312) = 8444249301319675 / 562949953421312"
  by (subst rnd_eval [where e = "-49"]) (simp_all add: rhe_def power_int_minus)

lemma double_44: "rnd (3602879701896397 / 4503599627370496) = 3602879701896397 / 4503599627370496"
  by (subst rnd_eval [where e = "-53"]) (simp_all add: rhe_def power_int_minus)

lemma double_45: "rnd (2617085110148601125673641205989 / 649037107316853453566312041152512) = 4648877034705025 / 1152921504606846976"
  by (subst rnd_eval [where e = "-60"]) (simp_all add: rhe_def power_int_minus)

lemma double_46: "rnd (432345564227567325 / 576460752303423488) = 6755399441055739 / 9007199254740992"
  by (subst rnd_eval [where e = "-53"]) (simp_all add: rhe_def power_int_minus)

lemma double_47: "rnd (900719925474099 / 4503599627370496) = 900719925474099 / 4503599627370496"
  by (subst rnd_eval [where e = "-55"]) (simp_all add: rhe_def power_int_minus)

lemma double_48: "rnd (22517998136852475 / 1125899906842624) = 5629499534213119 / 281474976710656"
  by (subst rnd_eval [where e = "-48"]) (simp_all add: rhe_def power_int_minus)

lemma double_49: "rnd (6978893627062938917839173607653 / 1298074214633706907132624082305024) = 1549625678235009 / 288230376151711744"
  by (subst rnd_eval [where e = "-60"]) (simp_all add: rhe_def power_int_minus)

lemma double_50: "rnd (144115188075855837 / 144115188075855872) = 4503599627370495 / 4503599627370496"
  by (subst rnd_eval [where e = "-53"]) (simp_all add: rhe_def power_int_minus)

lemma double_51: "rnd (11 / 10) = 2476979795053773 / 2251799813685248"
  by (subst rnd_eval [where e = "-52"]) (simp_all add: rhe_def power_int_minus)

lemma double_52: "rnd (225179981368525 / 2251799813685248) = 225179981368525 / 2251799813685248"
  by (subst rnd_eval [where e = "-56"]) (simp_all add: rhe_def power_int_minus)

lemma double_53: "rnd (5629499534213125 / 562949953421312) = 5629499534213125 / 562949953421312"
  by (subst rnd_eval [where e = "-49"]) (simp_all add: rhe_def power_int_minus)

lemma double_54: "rnd (1744723406765736666491891195675 / 649037107316853453566312041152512) = 6198502712940043 / 2305843009213693952"
  by (subst rnd_eval [where e = "-61"]) (simp_all add: rhe_def power_int_minus)

lemma double_55: "rnd (576460752303423999 / 1152921504606846976) = 1125899906842625 / 2251799813685248"
  by (subst rnd_eval [where e = "-53"]) (simp_all add: rhe_def power_int_minus)

lemma double_56: "rnd (6755399441055739 / 9007199254740992) = 6755399441055739 / 9007199254740992"
  by (subst rnd_eval [where e = "-53"]) (simp_all add: rhe_def power_int_minus)

lemma double_57: "rnd (15762598695796729 / 9007199254740992) = 1970324836974591 / 1125899906842624"
  by (subst rnd_eval [where e = "-52"]) (simp_all add: rhe_def power_int_minus)

lemma double_58: "rnd (5066549580791807 / 2251799813685248) = 5066549580791807 / 2251799813685248"
  by (subst rnd_eval [where e = "-51"]) (simp_all add: rhe_def power_int_minus)

lemma double_59: "rnd (11258999068426239 / 9007199254740992) = 5 / 4"
  by (subst rnd_eval [where e = "-52"]) (simp_all add: rhe_def power_int_minus)

lemma double_60: "rnd (10133099161583615 / 4503599627370496) = 9 / 4"
  by (subst rnd_eval [where e = "-51"]) (simp_all add: rhe_def power_int_minus)

lemma double_61: "rnd (1125899906842625 / 2251799813685248) = 1125899906842625 / 2251799813685248"
  by (subst rnd_eval [where e = "-53"]) (simp_all add: rhe_def power_int_minus)

lemma double_62: "rnd (6755399441055745 / 4503599627370496) = 6755399441055745 / 4503599627370496"
  by (subst rnd_eval [where e = "-52"]) (simp_all add: rhe_def power_int_minus)

lemma double_63: "rnd (20266198323167229 / 9007199254740992) = 5066549580791807 / 2251799813685248"
  by (subst rnd_eval [where e = "-51"]) (simp_all add: rhe_def power_int_minus)

lemma double_64: "rnd (- (900719925474099 / 4503599627370496)) = - (900719925474099 / 4503599627370496)"
  by (subst rnd_eval [where e = "-55"]) (simp_all add: rhe_def power_int_minus)

lemma double_65: "rnd (- (6978893627062938917839173607653 / 1298074214633706907132624082305024)) = - (1549625678235009 / 288230376151711744)"
  by (subst rnd_eval [where e = "-60"]) (simp_all add: rhe_def power_int_minus)

lemma double_66: "rnd (- (144115188075855837 / 144115188075855872)) = - (4503599627370495 / 4503599627370496)"
  by (subst rnd_eval [where e = "-53"]) (simp_all add: rhe_def power_int_minus)

lemma double_67: "rnd (- (22517998136852475 / 1125899906842624)) = - (5629499534213119 / 281474976710656)"
  by (subst rnd_eval [where e = "-48"]) (simp_all add: rhe_def power_int_minus)

lemma double_68: "rnd (13 / 20) = 5854679515581645 / 9007199254740992"
  by (subst rnd_eval [where e = "-53"]) (simp_all add: rhe_def power_int_minus)

lemma double_69: "rnd (146366987889541125 / 2251799813685248) = 65"
  by (subst rnd_eval [where e = "-46"]) (simp_all add: rhe_def power_int_minus)

lemma double_70: "rnd (2 / 5) = 3602879701896397 / 9007199254740992"
  by (subst rnd_eval [where e = "-54"]) (simp_all add: rhe_def power_int_minus)

lemma double_71: "rnd (5404319552844595 / 18014398509481984) = 5404319552844595 / 18014398509481984"
  by (subst rnd_eval [where e = "-54"]) (simp_all add: rhe_def power_int_minus)

lemma double_72: "rnd (3602879701896397 / 9007199254740992) = 3602879701896397 / 9007199254740992"
  by (subst rnd_eval [where e = "-54"]) (simp_all add: rhe_def power_int_minus)

lemma double_73: "rnd (14411518807585587 / 18014398509481984) = 3602879701896397 / 4503599627370496"
  by (subst rnd_eval [where e = "-53"]) (simp_all add: rhe_def power_int_minus)

lemma double_74: "rnd (10808639105689191 / 9007199254740992) = 1351079888211149 / 1125899906842624"
  by (subst rnd_eval [where e = "-52"]) (simp_all add: rhe_def power_int_minus)

lemma double_75: "rnd (27021597764222979 / 18014398509481984) = 6755399441055745 / 4503599627370496"
  by (subst rnd_eval [where e = "-52"]) (simp_all add: rhe_def power_int_minus)

lemma double_76: "rnd (8106479329266893 / 9007199254740992) = 8106479329266893 / 9007199254740992"
  by (subst rnd_eval [where e = "-53"]) (simp_all add: rhe_def power_int_minus)

lemma double_77: "rnd (21617278211378381 / 18014398509481984) = 5404319552844595 / 4503599627370496"
  by (subst rnd_eval [where e = "-52"]) (simp_all add: rhe_def power_int_minus)

lemma double_78: "rnd (1080863910568919 / 1351079888211149) = 900719925474099 / 1125899906842624"
  by (subst rnd_eval [where e = "-53"]) (simp_all add: rhe_def power_int_minus)

lemma double_79: "rnd (22517998136852475 / 281474976710656) = 5629499534213119 / 70368744177664"
  by (subst rnd_eval [where e = "-46"]) (simp_all add: rhe_def power_int_minus)

lemma double_80: "rnd (15 / 2) = 15 / 2"
  by (subst rnd_eval [where e = "-50"]) (simp_all add: rhe_def power_int_minus)

lemma double_81: "rnd (91 / 10) = 5122844576133939 / 562949953421312"
  by (subst rnd_eval [where e = "-49"]) (simp_all add: rhe_def power_int_minus)

lemma double_82: "rnd (1182194902184755 / 562949953421312) = 1182194902184755 / 562949953421312"
  by (subst rnd_eval [where e = "-51"]) (simp_all add: rhe_def power_int_minus)

lemma double_83: "rnd (1182194902184755 / 3940649673949184) = 2702159776422297 / 9007199254740992"
  by (subst rnd_eval [where e = "-54"]) (simp_all add: rhe_def power_int_minus)

lemma double_84: "rnd (67553994410557425 / 2251799813685248) = 4222124650659839 / 140737488355328"
  by (subst rnd_eval [where e = "-48"]) (simp_all add: rhe_def power_int_minus)

lemma double_85: "rnd (25220157913274779 / 4503599627370496) = 6305039478318695 / 1125899906842624"
  by (subst rnd_eval [where e = "-50"]) (simp_all add: rhe_def power_int_minus)

lemma double_86: "rnd (1 / 14) = 2573485501354569 / 36028797018963968"
  by (subst rnd_eval [where e = "-56"]) (simp_all add: rhe_def power_int_minus)

lemma double_87: "rnd (19939696077322685943024092239743 / 10384593717069655257060992658440192) = 8855003875628625 / 4611686018427387904"
  by (subst rnd_eval [where e = "-62"]) (simp_all add: rhe_def power_int_minus)

lemma double_88: "rnd (823515360433462125 / 2305843009213693952) = 6433713753386423 / 18014398509481984"
  by (subst rnd_eval [where e = "-54"]) (simp_all add: rhe_def power_int_minus)

lemma double_89: "rnd (64337137533864225 / 9007199254740992) = 2010535547933257 / 281474976710656"
  by (subst rnd_eval [where e = "-50"]) (simp_all add: rhe_def power_int_minus)

lemma double_90: "rnd (40982756609071515 / 4503599627370496) = 5122844576133939 / 562949953421312"
  by (subst rnd_eval [where e = "-49"]) (simp_all add: rhe_def power_int_minus)

lemma double_91: "rnd (5404319552844595 / 4503599627370496) = 5404319552844595 / 4503599627370496"
  by (subst rnd_eval [where e = "-52"]) (simp_all add: rhe_def power_int_minus)

lemma double_92: "rnd (5 / 4) = 5 / 4"
  by (subst rnd_eval [where e = "-52"]) (simp_all add: rhe_def power_int_minus)

lemma double_93: "rnd (9 / 16) = 9 / 16"
  by (subst rnd_eval [where e = "-53"]) (simp_all add: rhe_def power_int_minus)

lemma double_94: "rnd (225 / 4) = 225 / 4"
  by (subst rnd_eval [where e = "-47"]) (simp_all add: rhe_def power_int_minus)

lemmas roundings = double_1 double_2 double_3 double_4 double_5 double_6 double_7 double_8
  double_9 double_10 double_11 double_12 double_13 double_14 double_15 double_16 double_17
  double_18 double_19 double_20 double_21 double_22 double_23 double_24 double_25
  double_26 double_27 double_28 double_29 double_30 double_31 double_32 double_33
  double_34 double_35 double_36 double_37 double_38 double_39 double_40 double_41
  double_42 double_43 double_44 double_45 double_46 double_47 double_48 double_49
  double_50 double_51 double_52 double_53 double_54 double_55 double_56 double_57
  double_58 double_59 double_60 double_61 double_62 double_63 double_64 double_65
  double_66 double_67 double_68 double_69 double_70 double_71 double_72 double_73
  double_74 double_75 double_76 double_77 double_78 double_79 double_80 double_81
  double_82 double_83 double_84 double_85 double_86 double_87 double_88 double_89
  double_90 double_91 double_92 double_93 double_94

section \<open>Exit priority\<close>

text \<open>
  Each exit loop, on a window list in which \<open>w\<close> is the first window at which a
  condition of the loop holds, breaks at \<open>w\<close> with the exit the priority order
  decides there.
\<close>

lemma dollar_scalping_first:
  "list_all (\<lambda>p. \<not> fires e 3 (D 0.98) (e + 20) l ep p) pre \<Longrightarrow>
   fires e 3 (D 0.98) (e + 20) l ep w \<Longrightarrow>
   dollar_scalping_exit l ep e (pre @ w # post) =
     (fst (decide 3 (D 1.03) (D 0.98) Profit_3pct Stop_loss Time_20s ep w),
      snd (decide 3 (D 1.03) (D 0.98) Profit_3pct Stop_loss Time_20s ep w),
      Some (start_time w - l))"
  by (induction pre) (auto simp: fires_def decide_def Let_def)

lemma rank_based_first:
  "list_all (\<lambda>p. \<not> fires 60 30 (D 0.80) 90 l ep p) pre \<Longrightarrow>
   fires 60 30 (D 0.80) 90 l ep w \<Longrightarrow>
   rank_based_exit l ep (pre @ w # post) =
     (fst (decide 30 (D 1.30) (D 0.80) Target_30pct Stop_loss_20pct Time_30s ep w),
      snd (decide 30 (D 1.30) (D 0.80) Target_30pct Stop_loss_20pct Time_30s ep w),
      Some (start_time w - l))"
  by (induction pre) (auto simp: fires_def decide_def Let_def)

lemma momentum_first:
  "list_all (\<lambda>p. \<not> fires 120 50 (D 0.85) 240 l ep p) pre \<Longrightarrow>
   fires 120 50 (D 0.85) 240 l ep w \<Longrightarrow>
   momentum_exit l ep (pre @ w # post) =
     (fst (decide 50 1.50 (D 0.85) Target_50pct Stop_loss_15pct Time_120s ep w),
      snd (decide 50 1.50 (D 0.85) Target_50pct Stop_loss_15pct Time_120s ep w),
      Some (start_time w - l))"
  by (induction pre) (auto simp: fires_def decide_def Let_def)

lemma copy_trading_first:
  "list_all (\<lambda>p. \<not> fires e 20 (D 0.90) (e + 15) l ep p) pre \<Longrightarrow>
   fires e 20 (D 0.90) (e + 15) l ep w \<Longrightarrow>
   copy_trading_exit l ep e (pre @ w # post) =
     (fst (decide 20 (D 1.20) (D 0.90) Target_20pct Stop_loss_10pct Time_15s ep w),
      snd (decide 20 (D 1.20) (D 0.90) Target_20pct Stop_loss_10pct Time_15s ep w),
      Some (start_time w - l))"
  by (induction pre) (auto simp: fires_def decide_def Let_def)

lemma late_opportunity_first:
  "list_all (\<lambda>p. \<not> fires 1200 25 (D 0.80) 1500 l ep p) pre \<Longrightarrow>
   fires 1200 25 (D 0.80) 1500 l ep w \<Longrightarrow>
   late_opportunity_exit l ep (pre @ w # post) =
     (fst (decide 25 1.25 (D 0.80) Target_25pct Stop_loss_20pct Time_300s ep w),
      snd (decide 25 1.25 (D 0.80) Target_25pct Stop_loss_20pct Time_300s ep w),
      Some (start_time w - l))"
  by (induction pre) (auto simp: fires_def decide_def Let_def)

text \<open>
  The running peak stays below the threshold while no examined window fires, so at
  the first window that fires the threshold test is a test of that window's market
  cap.
\<close>

lemma mc_hunting_first:
  "pk < 1000000 \<Longrightarrow> list_all (\<lambda>p. \<not> fires_1m pt sl l ep p) pre \<Longrightarrow>
   fires_1m pt sl l ep w \<Longrightarrow>
   exit_of (mc_hunting_exit l ep pt sl pk (pre @ w # post)) =
     (fst (decide_1m pt sl ep w), snd (decide_1m pt sl ep w), Some (start_time w - l))"
proof (induction pre arbitrary: pk)
  case Nil
  then show ?case by (auto simp: fires_1m_def decide_1m_def Let_def exit_of_def)
next
  case (Cons p pre)
  then show ?case by (auto simp: fires_1m_def decide_1m_def Let_def exit_of_def)
qed

text \<open>The exit a strategy records is the exit of its loop.\<close>

lemma recorded_exit_mk_position [simp]:
  "recorded_exit (Some (mk_position name sz ep xp reason)) = Some (xp, reason)"
  "recorded_exit (Some ((mk_position name sz ep xp reason) \<lparr> buyers := b, volume := v \<rparr>))
     = Some (xp, reason)"
  "recorded_exit (Some ((mk_position name sz ep xp reason) \<lparr> copied_wallet_tier := t \<rparr>))
     = Some (xp, reason)"
  "recorded_exit (Some ((mk_position name sz ep xp reason)
                          \<lparr> score := s, peak_mc_sol := pm, hit_1m := h \<rparr>)) = Some (xp, reason)"
  "recorded_exit None = None"
  by (simp_all add: recorded_exit_def mk_position_def Let_def)

lemma dollar_scalping_recorded:
  assumes "test_dollar_scalping m l prices \<noteq> None"
    and "find (\<lambda>p. 30 \<le> start_time p - l \<and> start_time p - l \<le> 60) prices = Some p0"
  shows "recorded_exit (test_dollar_scalping m l prices)
           = Some (fst (dollar_scalping_exit l (close p0) (start_time p0 - l) prices),
                   fst (snd (dollar_scalping_exit l (close p0) (start_time p0 - l) prices)))"
  using assms
  by (auto simp: test_dollar_scalping_def Let_def split: if_splits prod.splits)

lemma rank_based_recorded:
  assumes "test_rank_based m l prices vol \<noteq> None"
    and "find (\<lambda>p. 60 \<le> start_time p - l \<and> start_time p - l \<le> 120) prices = Some p0"
  shows "recorded_exit (test_rank_based m l prices vol)
           = Some (fst (rank_based_exit l (close p0) prices),
                   fst (snd (rank_based_exit l (close p0) prices)))"
  using assms
  by (auto simp: test_rank_based_def Let_def split: if_splits prod.splits)

lemma momentum_recorded:
  assumes "test_momentum d m l prices \<noteq> None"
    and "find (\<lambda>p. 120 \<le> start_time p - l \<and> start_time p - l \<le> 130) prices = Some p0"
  shows "recorded_exit (test_momentum d m l prices)
           = Some (fst (momentum_exit l (close p0) prices),
                   fst (snd (momentum_exit l (close p0) prices)))"
  using assms
  by (auto simp: test_momentum_def Let_def split: if_splits prod.splits)

lemma copy_trading_recorded:
  assumes "test_copy_trading d m l prices \<noteq> None"
    and "find (\<lambda>t. \<not> side t \<noteq> ''buy'' \<and> \<not> amount_sol t < 0.25
                    \<and> get_wallet_tier d (trader t) \<in> {Tier_S, Tier_A, Tier_B, Tier_C})
           (get_trades d m l 0 60) = Some t"
    and "find (\<lambda>p. \<bar>(start_time p - l) - (block_time t - l)\<bar> < 10) prices = Some p0"
  shows "recorded_exit (test_copy_trading d m l prices)
           = Some (fst (copy_trading_exit l (close p0) (block_time t - l) prices),
                   fst (snd (copy_trading_exit l (close p0) (block_time t - l) prices)))"
  using assms
  by (auto simp: test_copy_trading_def Let_def split: if_splits prod.splits)

lemma late_opportunity_recorded:
  assumes "test_late_opportunity d m l prices \<noteq> None"
    and "find (\<lambda>p. 1200 \<le> start_time p - l \<and> start_time p - l \<le> 1260) prices = Some p0"
  shows "recorded_exit (test_late_opportunity d m l prices)
           = Some (fst (late_opportunity_exit l (close p0) prices),
                   fst (snd (late_opportunity_exit l (close p0) prices)))"
  using assms
  by (auto simp: test_late_opportunity_def Let_def split: if_splits prod.splits)

lemma mc_hunting_recorded:
  assumes "test_1m_mc_hunting d m l c prices \<noteq> None"
    and "find (\<lambda>p. 120 \<le> start_time p - l \<and> start_time p - l \<le> 130) prices = Some p0"
    and "bracket (total (calculate_7_signal_score d m l c)) = (sz, pt, sl)"
  shows "recorded_exit (test_1m_mc_hunting d m l c prices)
           = Some (fst (exit_of (mc_hunting_exit l (close p0) pt sl 0.0 prices)),
                   fst (snd (exit_of (mc_hunting_exit l (close p0) pt sl 0.0 prices))))"
  using assms
  by (auto simp: test_1m_mc_hunting_def Let_def exit_of_def split: if_splits prod.splits)

text \<open>
  Claim C1 as stated fails on the five fixed-percentage strategies.  Their
  profit-target condition is not that the window's high reaches the entry price times
  the target multiplier: the loops test the percentage gain
  \<^verbatim>\<open>((high - entry) / entry) * 100\<close>, computed in double precision, against the
  target percentage.  In \<open>prices_boundary\<close> the rank-based strategy enters at 7 in
  the window at offset 60, and the next window has a high of 9.1, which is 7 times
  1.30 in double precision, and a low of 7: by the claim the exit there is the profit
  target at 9.1.  The computed gain is 29.999999999999993, below 30, so the loop
  records the timeout at the close of 7.5.

  The second input is the one of claim C3: in \<open>prices_entry\<close> the window at offset
  150 is the first window after the entry window at offset 90, and the only
  condition that holds there is the timeout, so by the claim the exit is the timeout
  at the close of 1; the loop has already broken at the entry window itself.
\<close>

theorem exit_priority_counterexample:
  "rank_entry 0 prices_boundary = Some (win 60 7 7 7)
   \<and> spec_exit (D 1.30) (D 0.80) 90 Target_30pct Stop_loss_20pct Time_30s 0 7 60 prices_boundary
       = (D 9.1, Target_30pct)
   \<and> recorded_exit (test_rank_based ''m'' 0 prices_boundary 25) = Some (7.5, Time_30s)
   \<and> rank_entry 0 prices_entry = Some (win 90 1 1.5 0.9)
   \<and> spec_exit (D 1.30) (D 0.80) 90 Target_30pct Stop_loss_20pct Time_30s 0 1 90 prices_entry
       = (1, Time_30s)
   \<and> recorded_exit (test_rank_based ''m'' 0 prices_entry 25) = Some (D 1.30, Target_30pct)"
  by (simp add: rank_entry_def prices_boundary_def prices_entry_def win_def test_rank_based_def
      Let_def fops roundings)

text \<open>
  Claim C1, amended.  For each of the six strategies, when the strategy returns a
  position and \<open>w\<close> is a window after the entry window \<open>entry\<close> such that a condition of
  the strategy's exit loop holds at \<open>w\<close> and at no window listed before \<open>w\<close>, the
  recorded exit is decided at \<open>w\<close> by the fixed priority order.  For the five
  fixed-percentage strategies the profit target comes first, with exit price the
  entry price times the target multiplier and not the high, whether or not the
  stop-loss condition holds as well; then the stop loss; then the timeout at the
  close.  Their profit-target condition is that the percentage gain of the high over
  the entry price, computed in double precision, reaches the target percentage (3,
  30, 50, 20, 25).  For the score-gated strategy the market-cap threshold comes first
  (exit at the close), then the profit target, which there is that the high reaches
  the entry price times the multiplier of the score bracket, then the stop loss, then
  the 420s timeout.  An exit fired by the entry window itself or by a window before
  it (claim C3) is excluded by the hypothesis that no window listed before \<open>w\<close>
  fires.
\<close>

theorem exit_priority_amended:
  assumes "prices = pre @ w # post" and "start_time entry < start_time w"
  shows
    "(test_dollar_scalping m l prices \<noteq> None
        \<and> find (\<lambda>p. 30 \<le> start_time p - l \<and> start_time p - l \<le> 60) prices = Some entry
        \<and> list_all (\<lambda>p. \<not> fires (start_time entry - l) 3 (D 0.98) (start_time entry - l + 20) l
                             (close entry) p) pre
        \<and> fires (start_time entry - l) 3 (D 0.98) (start_time entry - l + 20) l (close entry) w \<longrightarrow>
        recorded_exit (test_dollar_scalping m l prices)
          = Some (decide 3 (D 1.03) (D 0.98) Profit_3pct Stop_loss Time_20s (close entry) w))
   \<and> (test_rank_based m l prices vol \<noteq> None
        \<and> find (\<lambda>p. 60 \<le> start_time p - l \<and> start_time p - l \<le> 120) prices = Some entry
        \<and> list_all (\<lambda>p. \<not> fires 60 30 (D 0.80) 90 l (close entry) p) pre
        \<and> fires 60 30 (D 0.80) 90 l (close entry) w \<longrightarrow>
        recorded_exit (test_rank_based m l prices vol)
          = Some (decide 30 (D 1.30) (D 0.80) Target_30pct Stop_loss_20pct Time_30s (close entry) w))
   \<and> (test_momentum d m l prices \<noteq> None
        \<and> find (\<lambda>p. 120 \<le> start_time p - l \<and> start_time p - l \<le> 130) prices = Some entry
        \<and> list_all (\<lambda>p. \<not> fires 120 50 (D 0.85) 240 l (close entry) p) pre
        \<and> fires 120 50 (D 0.85) 240 l (close entry) w \<longrightarrow>
        recorded_exit (test_momentum d m l prices)
          = Some (decide 50 1.50 (D 0.85) Target_50pct Stop_loss_15pct Time_120s (close entry) w))
   \<and> (test_copy_trading d m l prices \<noteq> None
        \<and> find (\<lambda>t. \<not> side t \<noteq> ''buy'' \<and> \<not> amount_sol t < 0.25
                       \<and> get_wallet_tier d (trader t) \<in> {Tier_S, Tier_A, Tier_B, Tier_C})
              (get_trades d m l 0 60) = Some t
        \<and> find (\<lambda>p. \<bar>(start_time p - l) - (block_time t - l)\<bar> < 10) prices = Some entry
        \<and> list_all (\<lambda>p. \<not> fires (block_time t - l) 20 (D 0.90) (block_time t - l + 15) l
                             (close entry) p) pre
        \<and> fires (block_time t - l) 20 (D 0.90) (block_time t - l + 15) l (close entry) w \<longrightarrow>
        recorded_exit (test_copy_trading d m l prices)
          = Some (decide 20 (D 1.20) (D 0.90) Target_20pct Stop_loss_10pct Time_15s (close entry) w))
   \<and> (test_late_opportunity d m l prices \<noteq> None
        \<and> find (\<lambda>p. 1200 \<le> start_time p - l \<and> start_time p - l \<le> 1260) prices = Some entry
        \<and> list_all (\<lambda>p. \<not> fires 1200 25 (D 0.80) 1500 l (close entry) p) pre
        \<and> fires 1200 25 (D 0.80) 1500 l (close entry) w \<longrightarrow>
        recorded_exit (test_late_opportunity d m l prices)
          = Some (decide 25 1.25 (D 0.80) Target_25pct Stop_loss_20pct Time_300s (close entry) w))
   \<and> (test_1m_mc_hunting d m l c prices \<noteq> None
        \<and> find (\<lambda>p. 120 \<le> start_time p - l \<and> start_time p - l \<le> 130) prices = Some entry
        \<and> bracket (total (calculate_7_signal_score d m l c)) = (sz, pt, sl)
        \<and> list_all (\<lambda>p. \<not> fires_1m pt sl l (close entry) p) pre
        \<and> fires_1m pt sl l (close entry) w \<longrightarrow>
        recorded_exit (test_1m_mc_hunting d m l c prices) = Some (decide_1m pt sl (close entry) w))"
proof -
  have pk: "(0::real) < 1000000" by simp
  show ?thesis
    unfolding assms(1)
    by (intro conjI impI; elim conjE)
       (simp_all add: dollar_scalping_recorded rank_based_recorded momentum_recorded
          copy_trading_recorded late_opportunity_recorded mc_hunting_recorded
          dollar_scalping_first rank_based_first momentum_first copy_trading_first
          late_opportunity_first mc_hunting_first [OF pk])
qed

text \<open>
  The active asset: every strategy takes a position, and the score of the
  score-gated strategy is 7.0 (creator 2.0, buyer speed 2.0, wallet overlap 2.0,
  concentration 1.0), which selects the bracket with target 1.30 and stop 0.80.
\<close>

lemma active_score: "total (calculate_7_signal_score db_active ''m'' 1000 ''c'') = 7"
  by (simp add: calculate_7_signal_score_def cs_signal_1_def cs_signal_2_def cs_signal_4_def
      cs_signal_5_def cs_signal_6_def cs_signal_7_def get_creator_stats_def get_wallet_tier_def
      get_trades_def get_price_data_def trader_volumes_def distinct_count_def buy_traders_def
      buy_volume_def py_sum_def db_active_def db_of_def prices_active_def buy_def win_def
      stats_row_def Let_def fops roundings)

lemma active_positions:
  "test_dollar_scalping ''m'' 1000 prices_active \<noteq> None"
  "test_rank_based ''m'' 1000 prices_active 25 \<noteq> None"
  "test_momentum db_active ''m'' 1000 prices_active \<noteq> None"
  "test_copy_trading db_active ''m'' 1000 prices_active \<noteq> None"
  "test_late_opportunity db_active ''m'' 1000 prices_active \<noteq> None"
  by (simp_all add: test_dollar_scalping_def test_rank_based_def test_momentum_def
      test_copy_trading_def test_late_opportunity_def
      get_wallet_tier_def get_trades_def distinct_count_def buy_traders_def
      buy_volume_def py_sum_def db_active_def db_of_def prices_active_def
      buy_def win_def stats_row_def Let_def fops roundings)

lemma active_hunting:
  "test_1m_mc_hunting db_active ''m'' 1000 ''c'' prices_active \<noteq> None"
  "test_1m_mc_hunting db_active ''m'' 1000 ''c'' prices_moon \<noteq> None"
  "bracket (total (calculate_7_signal_score db_active ''m'' 1000 ''c'')) = (0.50, D 1.30, D 0.80)"
  by (simp_all add: test_1m_mc_hunting_def active_score bracket_def prices_active_def
      prices_moon_def win_def Let_def fops roundings)

text \<open>
  On the active asset every strategy exits at the first window after its entry window,
  where the target and the stop condition hold together, with its profit target at
  the multiplier.  On \<open>prices_moon\<close> the score-gated strategy meets a window whose
  market cap is above the threshold and exits at that window's close.
\<close>

theorem exit_priority_amended_witness:
  "recorded_exit (test_dollar_scalping ''m'' 1000 prices_active) = Some (D 1.03, Profit_3pct)
   \<and> recorded_exit (test_rank_based ''m'' 1000 prices_active 25) = Some (D 1.30, Target_30pct)
   \<and> recorded_exit (test_momentum db_active ''m'' 1000 prices_active) = Some (1.50, Target_50pct)
   \<and> recorded_exit (test_copy_trading db_active ''m'' 1000 prices_active)
       = Some (D 1.20, Target_20pct)
   \<and> recorded_exit (test_late_opportunity db_active ''m'' 1000 prices_active)
       = Some (1.25, Target_25pct)
   \<and> recorded_exit (test_1m_mc_hunting db_active ''m'' 1000 ''c'' prices_active)
       = Some (D 1.30, Target_pct (D 1.30))
   \<and> recorded_exit (test_1m_mc_hunting db_active ''m'' 1000 ''c'' prices_moon)
       = Some (1.5, Hit_1m_mc)"
proof -
  have d1: "prices_active = [win 1000 1 2 0.5, win 1060 1 2 0.5] @ win 1120 1 2 0.5 # [win 1180 1 2 0.5, win 1240 1 2 0.5, win 1300 1 2 0.5,
                 win 1360 1 2 0.5, win 1420 1 2 0.5, win 1480 1 2 0.5,
                 win 1540 1 2 0.5, win 1600 1 2 0.5, win 1660 1 2 0.5,
                 win 1720 1 2 0.5, win 1780 1 2 0.5, win 1840 1 2 0.5,
                 win 1900 1 2 0.5, win 1960 1 2 0.5, win 2020 1 2 0.5,
                 win 2080 1 2 0.5, win 2140 1 2 0.5, win 2200 1 2 0.5,
                 win 2260 1 2 0.5]"
    by (simp add: prices_active_def)
  have l1: "start_time (win 1060 1 2 0.5) < start_time (win 1120 1 2 0.5)"
    by (simp add: win_def)
  note t1 = exit_priority_amended [where prices = prices_active and entry = "win 1060 1 2 0.5" and w = "win 1120 1 2 0.5"
                  and l = 1000 and m = "''m''", OF d1 l1, THEN conjunct1]
  have h1: "test_dollar_scalping ''m'' 1000 prices_active \<noteq> None
        \<and> find (\<lambda>p. 30 \<le> start_time p - 1000 \<and> start_time p - 1000 \<le> 60) prices_active
            = Some (win 1060 1 2 0.5)
        \<and> list_all (\<lambda>p. \<not> fires (start_time (win 1060 1 2 0.5) - 1000) 3 (D 0.98)
                             (start_time (win 1060 1 2 0.5) - 1000 + 20) 1000 (close (win 1060 1 2 0.5)) p)
              [win 1000 1 2 0.5, win 1060 1 2 0.5]
        \<and> fires (start_time (win 1060 1 2 0.5) - 1000) 3 (D 0.98) (start_time (win 1060 1 2 0.5) - 1000 + 20) 1000
              (close (win 1060 1 2 0.5)) (win 1120 1 2 0.5)"
    by (rule conjI [OF active_positions(1)])
       (simp add: active_hunting(3) prices_active_def win_def fires_def fires_1m_def fops
          roundings)
  have c1: "recorded_exit (test_dollar_scalping ''m'' 1000 prices_active) = Some (D 1.03, Profit_3pct)"
    using mp [OF t1 h1] by (simp add: decide_def decide_1m_def win_def fops roundings)
  have d2: "prices_active = [win 1000 1 2 0.5, win 1060 1 2 0.5] @ win 1120 1 2 0.5 # [win 1180 1 2 0.5, win 1240 1 2 0.5, win 1300 1 2 0.5,
                 win 1360 1 2 0.5, win 1420 1 2 0.5, win 1480 1 2 0.5,
                 win 1540 1 2 0.5, win 1600 1 2 0.5, win 1660 1 2 0.5,
                 win 1720 1 2 0.5, win 1780 1 2 0.5, win 1840 1 2 0.5,
                 win 1900 1 2 0.5, win 1960 1 2 0.5, win 2020 1 2 0.5,
                 win 2080 1 2 0.5, win 2140 1 2 0.5, win 2200 1 2 0.5,
                 win 2260 1 2 0.5]"
    by (simp add: prices_active_def)
  have l2: "start_time (win 1060 1 2 0.5) < start_time (win 1120 1 2 0.5)"
    by (simp add: win_def)
  note t2 = exit_priority_amended [where prices = prices_active and entry = "win 1060 1 2 0.5" and w = "win 1120 1 2 0.5"
                  and l = 1000 and m = "''m''" and vol = 25, OF d2 l2, THEN conjunct2, THEN conjunct1]
  have h2: "test_rank_based ''m'' 1000 prices_active 25 \<noteq> None
        \<and> find (\<lambda>p. 60 \<le> start_time p - 1000 \<and> start_time p - 1000 \<le> 120) prices_active
            = Some (win 1060 1 2 0.5)
        \<and> list_all (\<lambda>p. \<not> fires 60 30 (D 0.80) 90 1000 (close (win 1060 1 2 0.5)) p)
              [win 1000 1 2 0.5, win 1060 1 2 0.5]
        \<and> fires 60 30 (D 0.80) 90 1000 (close (win 1060 1 2 0.5)) (win 1120 1 2 0.5)"
    by (rule conjI [OF active_positions(2)])
       (simp add: active_hunting(3) prices_active_def win_def fires_def fires_1m_def fops
          roundings)
  have c2: "recorded_exit (test_rank_based ''m'' 1000 prices_active 25) = Some (D 1.30, Target_30pct)"
    using mp [OF t2 h2] by (simp add: decide_def decide_1m_def win_def fops roundings)
  have d3: "prices_active = [win 1000 1 2 0.5, win 1060 1 2 0.5, win 1120 1 2 0.5] @ win 1180 1 2 0.5 # [win 1240 1 2 0.5, win 1300 1 2 0.5, win 1360 1 2 0.5,
                 win 1420 1 2 0.5, win 1480 1 2 0.5, win 1540 1 2 0.5,
                 win 1600 1 2 0.5, win 1660 1 2 0.5, win 1720 1 2 0.5,
                 win 1780 1 2 0.5, win 1840 1 2 0.5, win 1900 1 2 0.5,
                 win 1960 1 2 0.5, win 2020 1 2 0.5, win 2080 1 2 0.5,
                 win 2140 1 2 0.5, win 2200 1 2 0.5, win 2260 1 2 0.5]"
    by (simp add: prices_active_def)
  have l3: "start_time (win 1120 1 2 0.5) < start_time (win 1180 1 2 0.5)"
    by (simp add: win_def)
  note t3 = exit_priority_amended [where prices = prices_active and entry = "win 1120 1 2 0.5" and w = "win 1180 1 2 0.5"
                  and l = 1000 and m = "''m''" and d = db_active, OF d3 l3, THEN conjunct2, THEN conjunct2, THEN conjunct1]
  have h3: "test_momentum db_active ''m'' 1000 prices_active \<noteq> None
        \<and> find (\<lambda>p. 120 \<le> start_time p - 1000 \<and> start_time p - 1000 \<le> 130) prices_active
            = Some (win 1120 1 2 0.5)
        \<and> list_all (\<lambda>p. \<not> fires 120 50 (D 0.85) 240 1000 (close (win 1120 1 2 0.5)) p)
              [win 1000 1 2 0.5, win 1060 1 2 0.5, win 1120 1 2 0.5]
        \<and> fires 120 50 (D 0.85) 240 1000 (close (win 1120 1 2 0.5)) (win 1180 1 2 0.5)"
    by (rule conjI [OF active_positions(3)])
       (simp add: active_hunting(3) prices_active_def win_def fires_def fires_1m_def fops
          roundings)
  have c3: "recorded_exit (test_momentum db_active ''m'' 1000 prices_active) = Some (1.50, Target_50pct)"
    using mp [OF t3 h3] by (simp add: decide_def decide_1m_def win_def fops roundings)
  have d4: "prices_active = [win 1000 1 2 0.5] @ win 1060 1 2 0.5 # [win 1120 1 2 0.5, win 1180 1 2 0.5, win 1240 1 2 0.5,
                 win 1300 1 2 0.5, win 1360 1 2 0.5, win 1420 1 2 0.5,
                 win 1480 1 2 0.5, win 1540 1 2 0.5, win 1600 1 2 0.5,
                 win 1660 1 2 0.5, win 1720 1 2 0.5, win 1780 1 2 0.5,
                 win 1840 1 2 0.5, win 1900 1 2 0.5, win 1960 1 2 0.5,
                 win 2020 1 2 0.5, win 2080 1 2 0.5, win 2140 1 2 0.5,
                 win 2200 1 2 0.5, win 2260 1 2 0.5]"
    by (simp add: prices_active_def)
  have l4: "start_time (win 1000 1 2 0.5) < start_time (win 1060 1 2 0.5)"
    by (simp add: win_def)
  note t4 = exit_priority_amended [where prices = prices_active and entry = "win 1000 1 2 0.5" and w = "win 1060 1 2 0.5"
                  and l = 1000 and m = "''m''" and d = db_active and t = "buy ''a'' 1 1005", OF d4 l4, THEN conjunct2, THEN conjunct2, THEN conjunct2, THEN conjunct1]
  have h4: "test_copy_trading db_active ''m'' 1000 prices_active \<noteq> None
        \<and> find (\<lambda>t. \<not> side t \<noteq> ''buy'' \<and> \<not> amount_sol t < 0.25
                       \<and> get_wallet_tier db_active (trader t) \<in> {Tier_S, Tier_A, Tier_B, Tier_C})
              (get_trades db_active ''m'' 1000 0 60) = Some (buy ''a'' 1 1005)
        \<and> find (\<lambda>p. \<bar>(start_time p - 1000) - (block_time (buy ''a'' 1 1005) - 1000)\<bar> < 10) prices_active
            = Some (win 1000 1 2 0.5)
        \<and> list_all (\<lambda>p. \<not> fires (block_time (buy ''a'' 1 1005) - 1000) 20 (D 0.90)
                             (block_time (buy ''a'' 1 1005) - 1000 + 15) 1000 (close (win 1000 1 2 0.5)) p)
              [win 1000 1 2 0.5]
        \<and> fires (block_time (buy ''a'' 1 1005) - 1000) 20 (D 0.90) (block_time (buy ''a'' 1 1005) - 1000 + 15) 1000
              (close (win 1000 1 2 0.5)) (win 1060 1 2 0.5)"
    by (rule conjI [OF active_positions(4)])
       (simp add: active_hunting(3) prices_active_def win_def fires_def fires_1m_def
          get_trades_def get_wallet_tier_def db_active_def db_of_def buy_def stats_row_def
          Let_def fops roundings)
  have c4: "recorded_exit (test_copy_trading db_active ''m'' 1000 prices_active)
       = Some (D 1.20, Target_20pct)"
    using mp [OF t4 h4] by (simp add: decide_def decide_1m_def win_def fops roundings)
  have d5: "prices_active = [win 1000 1 2 0.5, win 1060 1 2 0.5, win 1120 1 2 0.5,
                win 1180 1 2 0.5, win 1240 1 2 0.5, win 1300 1 2 0.5, win 1360 1 2 0.5,
                win 1420 1 2 0.5, win 1480 1 2 0.5, win 1540 1 2 0.5, win 1600 1 2 0.5,
                win 1660 1 2 0.5, win 1720 1 2 0.5, win 1780 1 2 0.5, win 1840 1 2 0.5,
                win 1900 1 2 0.5, win 1960 1 2 0.5, win 2020 1 2 0.5, win 2080 1 2 0.5,
                win 2140 1 2 0.5, win 2200 1 2 0.5] @ win 2260 1 2 0.5 # []"
    by (simp add: prices_active_def)
  have l5: "start_time (win 2200 1 2 0.5) < start_time (win 2260 1 2 0.5)"
    by (simp add: win_def)
  note t5 = exit_priority_amended [where prices = prices_active and entry = "win 2200 1 2 0.5" and w = "win 2260 1 2 0.5"
                  and l = 1000 and m = "''m''" and d = db_active, OF d5 l5, THEN conjunct2, THEN conjunct2, THEN conjunct2, THEN conjunct2, THEN conjunct1]
  have h5: "test_late_opportunity db_active ''m'' 1000 prices_active \<noteq> None
        \<and> find (\<lambda>p. 1200 \<le> start_time p - 1000 \<and> start_time p - 1000 \<le> 1260) prices_active
            = Some (win 2200 1 2 0.5)
        \<and> list_all (\<lambda>p. \<not> fires 1200 25 (D 0.80) 1500 1000 (close (win 2200 1 2 0.5)) p)
              [win 1000 1 2 0.5, win 1060 1 2 0.5, win 1120 1 2 0.5,
                win 1180 1 2 0.5, win 1240 1 2 0.5, win 1300 1 2 0.5, win 1360 1 2 0.5,
                win 1420 1 2 0.5, win 1480 1 2 0.5, win 1540 1 2 0.5, win 1600 1 2 0.5,
                win 1660 1 2 0.5, win 1720 1 2 0.5, win 1780 1 2 0.5, win 1840 1 2 0.5,
                win 1900 1 2 0.5, win 1960 1 2 0.5, win 2020 1 2 0.5, win 2080 1 2 0.5,
                win 2140 1 2 0.5, win 2200 1 2 0.5]
        \<and> fires 1200 25 (D 0.80) 1500 1000 (close (win 2200 1 2 0.5)) (win 2260 1 2 0.5)"
    by (rule conjI [OF active_positions(5)])
       (simp add: active_hunting(3) prices_active_def win_def fires_def fires_1m_def fops
          roundings)
  have c5: "recorded_exit (test_late_opportunity db_active ''m'' 1000 prices_active)
       = Some (1.25, Target_25pct)"
    using mp [OF t5 h5] by (simp add: decide_def decide_1m_def win_def fops roundings)
  have d6: "prices_active = [win 1000 1 2 0.5, win 1060 1 2 0.5, win 1120 1 2 0.5] @ win 1180 1 2 0.5 # [win 1240 1 2 0.5, win 1300 1 2 0.5, win 1360 1 2 0.5,
                 win 1420 1 2 0.5, win 1480 1 2 0.5, win 1540 1 2 0.5,
                 win 1600 1 2 0.5, win 1660 1 2 0.5, win 1720 1 2 0.5,
                 win 1780 1 2 0.5, win 1840 1 2 0.5, win 1900 1 2 0.5,
                 win 1960 1 2 0.5, win 2020 1 2 0.5, win 2080 1 2 0.5,
                 win 2140 1 2 0.5, win 2200 1 2 0.5, win 2260 1 2 0.5]"
    by (simp add: prices_active_def)
  have l6: "start_time (win 1120 1 2 0.5) < start_time (win 1180 1 2 0.5)"
    by (simp add: win_def)
  note t6 = exit_priority_amended [where prices = prices_active and entry = "win 1120 1 2 0.5" and w = "win 1180 1 2 0.5"
                  and l = 1000 and m = "''m''" and d = db_active and c = "''c''" and sz = "0.50" and pt = "D 1.30"
                  and sl = "D 0.80", OF d6 l6, THEN conjunct2, THEN conjunct2, THEN conjunct2, THEN conjunct2, THEN conjunct2]
  have h6: "test_1m_mc_hunting db_active ''m'' 1000 ''c'' prices_active \<noteq> None
        \<and> find (\<lambda>p. 120 \<le> start_time p - 1000 \<and> start_time p - 1000 \<le> 130) prices_active
            = Some (win 1120 1 2 0.5)
        \<and> bracket (total (calculate_7_signal_score db_active ''m'' 1000 ''c''))
            = (0.50, D 1.30, D 0.80)
        \<and> list_all (\<lambda>p. \<not> fires_1m (D 1.30) (D 0.80) 1000 (close (win 1120 1 2 0.5)) p)
              [win 1000 1 2 0.5, win 1060 1 2 0.5, win 1120 1 2 0.5]
        \<and> fires_1m (D 1.30) (D 0.80) 1000 (close (win 1120 1 2 0.5)) (win 1180 1 2 0.5)"
    by (rule conjI [OF active_hunting(1)])
       (simp add: active_hunting(3) prices_active_def win_def fires_def fires_1m_def fops
          roundings)
  have c6: "recorded_exit (test_1m_mc_hunting db_active ''m'' 1000 ''c'' prices_active)
       = Some (D 1.30, Target_pct (D 1.30))"
    using mp [OF t6 h6] by (simp add: decide_def decide_1m_def win_def fops roundings)
  have d7: "prices_moon = [win 1000 1 2 0.5, win 1060 1 2 0.5, win 1120 1 2 0.5] @ win 1180 1.5 2000000 0.5 # []"
    by (simp add: prices_moon_def)
  have l7: "start_time (win 1120 1 2 0.5) < start_time (win 1180 1.5 2000000 0.5)"
    by (simp add: win_def)
  note t7 = exit_priority_amended [where prices = prices_moon and entry = "win 1120 1 2 0.5" and w = "win 1180 1.5 2000000 0.5"
                  and l = 1000 and m = "''m''" and d = db_active and c = "''c''" and sz = "0.50" and pt = "D 1.30"
                  and sl = "D 0.80", OF d7 l7, THEN conjunct2, THEN conjunct2, THEN conjunct2, THEN conjunct2, THEN conjunct2]
  have h7: "test_1m_mc_hunting db_active ''m'' 1000 ''c'' prices_moon \<noteq> None
        \<and> find (\<lambda>p. 120 \<le> start_time p - 1000 \<and> start_time p - 1000 \<le> 130) prices_moon
            = Some (win 1120 1 2 0.5)
        \<and> bracket (total (calculate_7_signal_score db_active ''m'' 1000 ''c''))
            = (0.50, D 1.30, D 0.80)
        \<and> list_all (\<lambda>p. \<not> fires_1m (D 1.30) (D 0.80) 1000 (close (win 1120 1 2 0.5)) p)
              [win 1000 1 2 0.5, win 1060 1 2 0.5, win 1120 1 2 0.5]
        \<and> fires_1m (D 1.30) (D 0.80) 1000 (close (win 1120 1 2 0.5)) (win 1180 1.5 2000000 0.5)"
    by (rule conjI [OF active_hunting(2)])
       (simp add: active_hunting(3) prices_moon_def win_def fires_def fires_1m_def fops
          roundings)
  have c7: "recorded_exit (test_1m_mc_hunting db_active ''m'' 1000 ''c'' prices_moon)
       = Some (1.5, Hit_1m_mc)"
    using mp [OF t7 h7] by (simp add: decide_def decide_1m_def win_def fops roundings)
  show ?thesis using c1 c2 c3 c4 c5 c6 c7 by simp
qed

section \<open>Dollar scalping drops the default exit\<close>

lemma dollar_scalping_exit_time:
  "dollar_scalping_exit l ep e ps = (xp, Time, f) \<Longrightarrow> xp = ep \<and> f = None"
  by (induction ps) (auto simp: Let_def split: if_splits)

text \<open>
  Claim C9.  When dollar scalping finds an entry window with a positive close, it
  returns no position exactly when its exit loop ends with the default reason
  \<open>Time\<close>; the exit price is then the entry price, so the P&L is zero.  For every
  other exit reason it returns the position, whatever the P&L.
\<close>

theorem scalping_time_exit_dropped:
  assumes "2 \<le> length prices"
    and "find (\<lambda>p. 30 \<le> start_time p - l \<and> start_time p - l \<le> 60) prices = Some p0"
    and "0 < close p0"
    and "dollar_scalping_exit l (close p0) (start_time p0 - l) prices = (xp, reason, fired)"
  shows "test_dollar_scalping m l prices =
           (if reason = Time then None
            else Some (mk_position ''dollar_scalping'' (fdiv 1.0 SOL_PRICE_USD) (close p0) xp reason))
         \<and> (reason = Time \<longrightarrow> xp = close p0)"
proof (cases "reason = Time")
  case True
  with assms(4) have "xp = close p0" using dollar_scalping_exit_time by blast
  moreover have "(0::real) < D 0.01" by (simp add: D_def roundings)
  ultimately show ?thesis using True assms
    by (simp add: test_dollar_scalping_def Let_def fsub_def fdiv_def fmul_def)
next
  case False
  with assms show ?thesis by (simp add: test_dollar_scalping_def Let_def)
qed

text \<open>
  With no window after the entry window the loop ends with \<open>Time\<close> and no position
  is returned; with a flat window 60 seconds later the 20s timeout fires at the entry
  price and the position is returned with P&L zero.
\<close>

theorem scalping_time_exit_dropped_witness:
  "test_dollar_scalping ''m'' 0 [win 0 1 1 1, win 30 1 1 1] = None
   \<and> test_dollar_scalping ''m'' 0 [win 30 1 1 1, win 90 1 1 1]
       = Some (mk_position ''dollar_scalping'' (fdiv 1.0 SOL_PRICE_USD) 1 1 Time_20s)
   \<and> pnl_usd (mk_position ''dollar_scalping'' (fdiv 1.0 SOL_PRICE_USD) 1 1 Time_20s) = 0"
proof -
  have a: "dollar_scalping_exit 0 (close (win 30 1 1 1)) (start_time (win 30 1 1 1) - 0)
             [win 0 1 1 1, win 30 1 1 1] = (1, Time, None)"
    by (simp add: win_def fops)
  have b: "dollar_scalping_exit 0 (close (win 30 1 1 1)) (start_time (win 30 1 1 1) - 0)
             [win 30 1 1 1, win 90 1 1 1] = (1, Time_20s, Some 90)"
    by (simp add: win_def fops roundings)
  have c: "find (\<lambda>p. 30 \<le> start_time p - 0 \<and> start_time p - 0 \<le> 60)
             [win 0 1 1 1, win 30 1 1 1] = Some (win 30 1 1 1)"
    by (simp add: win_def)
  have d: "find (\<lambda>p. 30 \<le> start_time p - 0 \<and> start_time p - 0 \<le> 60)
             [win 30 1 1 1, win 90 1 1 1] = Some (win 30 1 1 1)"
    by (simp add: win_def)
  have e: "0 < close (win 30 1 1 1)" by (simp add: win_def fops)
  show ?thesis
    using scalping_time_exit_dropped [OF _ c e a, of "''m''"]
          scalping_time_exit_dropped [OF _ d e b, of "''m''"]
    by (simp add: win_def mk_position_def fops)
qed

section \<open>Exits at the entry window\<close>

text \<open>
  The loop of dollar scalping skips every window up to and including the entry window:
  a window at which it breaks is later than the entry.
\<close>

theorem dollar_scalping_exit_after_entry:
  "dollar_scalping_exit l ep e ps = (xp, r, Some f) \<Longrightarrow> e < f"
  by (induction ps) (auto simp: Let_def split: if_splits)

theorem dollar_scalping_exit_after_entry_witness:
  "dollar_scalping_exit 0 1 30 [win 30 1 1.5 0.9, win 90 1 1.5 0.9] = (D 1.03, Profit_3pct, Some 90)
   \<and> (30::int) < 90"
proof -
  have x: "dollar_scalping_exit 0 1 30 [win 30 1 1.5 0.9, win 90 1 1.5 0.9]
             = (D 1.03, Profit_3pct, Some 90)"
    by (simp add: win_def fops roundings)
  show ?thesis using dollar_scalping_exit_after_entry [OF x] x by simp
qed

text \<open>
  Claim C3.  The loops of the rank-based and momentum strategies skip the windows up
  to offsets 60 and 120, the first second of their entry intervals, not up to the
  entry window.  With windows at offsets 30, 90 and 150 the rank-based strategy
  enters at the close of the window at offset 90 and its loop breaks at that same
  window, on the window's own high: the exit instant equals the entry instant.  The
  momentum loop does the same for an entry window at offset 125.
\<close>

theorem exit_at_entry_window:
  "find (\<lambda>p. 60 \<le> start_time p - 0 \<and> start_time p - 0 \<le> 120)
      [win 30 1 1 1, win 90 1 1.5 0.9, win 150 1 1 1] = Some (win 90 1 1.5 0.9)
   \<and> rank_based_exit 0 1 [win 30 1 1 1, win 90 1 1.5 0.9, win 150 1 1 1]
       = (D 1.30, Target_30pct, Some 90)
   \<and> test_rank_based ''m'' 0 [win 30 1 1 1, win 90 1 1.5 0.9, win 150 1 1 1] 25
       = Some (mk_position ''rank_based'' (fdiv 5.0 SOL_PRICE_USD) 1 (D 1.30) Target_30pct)
   \<and> find (\<lambda>p. 120 \<le> start_time p - 0 \<and> start_time p - 0 \<le> 130)
      [win 5 1 1 1, win 65 1 1 1, win 125 1 1.6 1, win 185 1 1 1] = Some (win 125 1 1.6 1)
   \<and> momentum_exit 0 1 [win 5 1 1 1, win 65 1 1 1, win 125 1 1.6 1, win 185 1 1 1]
       = (1.50, Target_50pct, Some 125)"
  by (simp add: win_def test_rank_based_def Let_def fops roundings)

section \<open>Bounds of the seven signals\<close>

lemma cs_signal_1_range: "cs_signal_1 d c \<in> {0, 1, 1.5, 2}"
  by (simp add: cs_signal_1_def split: option.splits prod.splits)

lemma cs_signal_2_range: "cs_signal_2 d m l \<in> {0, 1, 1.5, 2}"
  by (simp add: cs_signal_2_def Let_def)

lemma cs_signal_4_range: "cs_signal_4 d m l \<in> {0, 1, 1.5, 2}"
  by (simp add: cs_signal_4_def Let_def)

lemma cs_signal_5_range: "cs_signal_5 d m l \<in> {0, 0.5, 1}"
  by (simp add: cs_signal_5_def Let_def)

lemma cs_signal_6_range: "cs_signal_6 d m l \<in> {0, 1, 1.5}"
  by (simp add: cs_signal_6_def Let_def)

lemma cs_signal_7_range: "cs_signal_7 d m l \<in> {0, 1, 2, 3}"
  by (simp add: cs_signal_7_def Let_def)

lemma signal_1_range: "calculate_signal_1_creator_reputation d m \<in> {0, 1, 1.5, 2}"
  by (simp add: calculate_signal_1_creator_reputation_def Let_def split: option.splits)

lemma signal_2_range: "calculate_signal_2_buyer_speed d m l e \<in> {0, 1, 1.5, 2}"
  by (simp add: calculate_signal_2_buyer_speed_def Let_def)

lemma signal_3_range: "calculate_signal_3_liquidity_ratio d m e l \<in> {0, 1, 1.5}"
  by (simp add: calculate_signal_3_liquidity_ratio_def Let_def split: option.splits)

lemma signal_4_range: "calculate_signal_4_wallet_overlap d m l e \<in> {0, 1, 1.5, 2}"
  by (simp add: calculate_signal_4_wallet_overlap_def Let_def)

lemma signal_5_range: "calculate_signal_5_buy_concentration d m l e \<in> {0, 0.5, 1}"
  by (simp add: calculate_signal_5_buy_concentration_def Let_def)

lemma signal_6_range: "calculate_signal_6_volume_acceleration d m l e \<in> {0, 1, 1.5}"
  by (simp add: calculate_signal_6_volume_acceleration_def Let_def)

lemma signal_7_range: "calculate_signal_7_mc_velocity d m l e \<in> {0, 1, 2, 3}"
  by (simp add: calculate_signal_7_mc_velocity_def Let_def split: option.splits)

lemma calculate_7_signal_score_fields:
  "signal_1 (calculate_7_signal_score d m l c) = cs_signal_1 d c"
  "signal_2 (calculate_7_signal_score d m l c) = cs_signal_2 d m l"
  "signal_3 (calculate_7_signal_score d m l c) = 0"
  "signal_4 (calculate_7_signal_score d m l c) = cs_signal_4 d m l"
  "signal_5 (calculate_7_signal_score d m l c) = cs_signal_5 d m l"
  "signal_6 (calculate_7_signal_score d m l c) = cs_signal_6 d m l"
  "signal_7 (calculate_7_signal_score d m l c) = cs_signal_7 d m l"
  by (simp_all add: calculate_7_signal_score_def Let_def)

text \<open>
  Every contribution is a multiple of one half between 0 and 3, and sums of such
  numbers are computed without rounding error.
\<close>

lemma fadd_halves:
  "\<bar>a + b\<bar> \<le> 9007199254740992 \<Longrightarrow> fadd (of_int a / 2) (of_int b / 2) = of_int (a + b) / 2"
  using rnd_half_int [of "a + b"] by (simp add: fadd_def add_divide_distrib)

lemma halves_cases:
  "s \<in> {0, 1/2, 1, 3/2, 2, 3} \<Longrightarrow> \<exists>k. s = real_of_int k / 2 \<and> 0 \<le> k \<and> k \<le> 6"
proof -
  assume "s \<in> {0, 1/2, 1, 3/2, 2, 3}"
  then consider "s = 0" | "s = 1/2" | "s = 1" | "s = 3/2" | "s = 2" | "s = 3" by auto
  then show ?thesis
  proof cases
    case 1 then show ?thesis by (intro exI [of _ 0]) simp
  next
    case 2 then show ?thesis by (intro exI [of _ 1]) simp
  next
    case 3 then show ?thesis by (intro exI [of _ 2]) simp
  next
    case 4 then show ?thesis by (intro exI [of _ 3]) simp
  next
    case 5 then show ?thesis by (intro exI [of _ 4]) simp
  next
    case 6 then show ?thesis by (intro exI [of _ 6]) simp
  qed
qed

lemma sum_of_seven:
  assumes "s1 \<in> {0, 1/2, 1, 3/2, 2, 3}" "s2 \<in> {0, 1/2, 1, 3/2, 2, 3}"
    "s3 \<in> {0, 1/2, 1, 3/2, 2, 3}" "s4 \<in> {0, 1/2, 1, 3/2, 2, 3}"
    "s5 \<in> {0, 1/2, 1, 3/2, 2, 3}" "s6 \<in> {0, 1/2, 1, 3/2, 2, 3}"
    "s7 \<in> {0, 1/2, 1, 3/2, 2, 3}"
  shows "py_sum [s1, s2, s3, s4, s5, s6, s7] = s1 + s2 + s3 + s4 + s5 + s6 + s7"
    and "fadd (fadd (fadd (fadd (fadd (fadd s1 s2) s3) s4) s5) s6) s7
           = s1 + s2 + s3 + s4 + s5 + s6 + s7"
proof -
  obtain k1 k2 k3 k4 k5 k6 k7 where k:
    "s1 = real_of_int k1 / 2" "0 \<le> k1" "k1 \<le> 6" "s2 = real_of_int k2 / 2" "0 \<le> k2" "k2 \<le> 6"
    "s3 = real_of_int k3 / 2" "0 \<le> k3" "k3 \<le> 6" "s4 = real_of_int k4 / 2" "0 \<le> k4" "k4 \<le> 6"
    "s5 = real_of_int k5 / 2" "0 \<le> k5" "k5 \<le> 6" "s6 = real_of_int k6 / 2" "0 \<le> k6" "k6 \<le> 6"
    "s7 = real_of_int k7 / 2" "0 \<le> k7" "k7 \<le> 6"
    using assms [THEN halves_cases] by blast
  have z: "(0::real) = real_of_int 0 / 2" by simp
  have a1: "fadd s1 s2 = real_of_int (k1 + k2) / 2"
    unfolding k using k by (intro fadd_halves) linarith
  have a2: "fadd (fadd s1 s2) s3 = real_of_int (k1 + k2 + k3) / 2"
    unfolding a1 unfolding k using k by (intro fadd_halves) linarith
  have a3: "fadd (fadd (fadd s1 s2) s3) s4 = real_of_int (k1 + k2 + k3 + k4) / 2"
    unfolding a2 unfolding k using k by (intro fadd_halves) linarith
  have a4: "fadd (fadd (fadd (fadd s1 s2) s3) s4) s5 = real_of_int (k1 + k2 + k3 + k4 + k5) / 2"
    unfolding a3 unfolding k using k by (intro fadd_halves) linarith
  have a5: "fadd (fadd (fadd (fadd (fadd s1 s2) s3) s4) s5) s6
              = real_of_int (k1 + k2 + k3 + k4 + k5 + k6) / 2"
    unfolding a4 unfolding k using k by (intro fadd_halves) linarith
  have a6: "fadd (fadd (fadd (fadd (fadd (fadd s1 s2) s3) s4) s5) s6) s7
              = real_of_int (k1 + k2 + k3 + k4 + k5 + k6 + k7) / 2"
    unfolding a5 unfolding k using k by (intro fadd_halves) linarith
  have s: "s1 + s2 + s3 + s4 + s5 + s6 + s7 = real_of_int (k1 + k2 + k3 + k4 + k5 + k6 + k7) / 2"
    by (simp add: k add_divide_distrib)
  show "fadd (fadd (fadd (fadd (fadd (fadd s1 s2) s3) s4) s5) s6) s7
           = s1 + s2 + s3 + s4 + s5 + s6 + s7"
    using a6 s by simp
  have "rnd (real_of_int k1 / 2) = real_of_int k1 / 2"
    using k by (intro rnd_half_int) simp
  then have "fadd 0 s1 = s1"
    by (simp only: fadd_def k(1) add_0)
  then show "py_sum [s1, s2, s3, s4, s5, s6, s7] = s1 + s2 + s3 + s4 + s5 + s6 + s7"
    using a6 s by (simp add: py_sum_def)
qed

text \<open>
  Claim C2.  In both scoring engines every signal contribution lies between 0 and
  its declared maximum (2.0, 2.0, 1.5, 2.0, 1.0, 1.5, 3.0), the reported total is
  the sum of the seven contributions, and the total is at most the sum of the maxima.
\<close>

theorem signal_bounds:
  "(let s = calculate_7_signal_score d m l c in
      0 \<le> signal_1 s \<and> signal_1 s \<le> 2.0 \<and> 0 \<le> signal_2 s \<and> signal_2 s \<le> 2.0
    \<and> 0 \<le> signal_3 s \<and> signal_3 s \<le> 1.5 \<and> 0 \<le> signal_4 s \<and> signal_4 s \<le> 2.0
    \<and> 0 \<le> signal_5 s \<and> signal_5 s \<le> 1.0 \<and> 0 \<le> signal_6 s \<and> signal_6 s \<le> 1.5
    \<and> 0 \<le> signal_7 s \<and> signal_7 s \<le> 3.0
    \<and> total s = signal_1 s + signal_2 s + signal_3 s + signal_4 s + signal_5 s + signal_6 s + signal_7 s
    \<and> total s \<le> 2.0 + 2.0 + 1.5 + 2.0 + 1.0 + 1.5 + 3.0)
 \<and> (let t = score_token_at_time d m l e in
      0 \<le> ts_signal_1 t \<and> ts_signal_1 t \<le> 2.0 \<and> 0 \<le> ts_signal_2 t \<and> ts_signal_2 t \<le> 2.0
    \<and> 0 \<le> ts_signal_3 t \<and> ts_signal_3 t \<le> 1.5 \<and> 0 \<le> ts_signal_4 t \<and> ts_signal_4 t \<le> 2.0
    \<and> 0 \<le> ts_signal_5 t \<and> ts_signal_5 t \<le> 1.0 \<and> 0 \<le> ts_signal_6 t \<and> ts_signal_6 t \<le> 1.5
    \<and> 0 \<le> ts_signal_7 t \<and> ts_signal_7 t \<le> 3.0
    \<and> total_score t = ts_signal_1 t + ts_signal_2 t + ts_signal_3 t + ts_signal_4 t
                        + ts_signal_5 t + ts_signal_6 t + ts_signal_7 t
    \<and> total_score t \<le> 2.0 + 2.0 + 1.5 + 2.0 + 1.0 + 1.5 + 3.0)"
proof -
  have a1: "0 \<le> cs_signal_1 d c \<and> cs_signal_1 d c \<le> 2"
    using cs_signal_1_range [of d c] by auto
  have a2: "0 \<le> cs_signal_2 d m l \<and> cs_signal_2 d m l \<le> 2"
    using cs_signal_2_range [of d m l] by auto
  have a4: "0 \<le> cs_signal_4 d m l \<and> cs_signal_4 d m l \<le> 2"
    using cs_signal_4_range [of d m l] by auto
  have a5: "0 \<le> cs_signal_5 d m l \<and> cs_signal_5 d m l \<le> 1"
    using cs_signal_5_range [of d m l] by auto
  have a6: "0 \<le> cs_signal_6 d m l \<and> cs_signal_6 d m l \<le> 3/2"
    using cs_signal_6_range [of d m l] by auto
  have a7: "0 \<le> cs_signal_7 d m l \<and> cs_signal_7 d m l \<le> 3"
    using cs_signal_7_range [of d m l] by auto
  have b1: "0 \<le> calculate_signal_1_creator_reputation d m
            \<and> calculate_signal_1_creator_reputation d m \<le> 2"
    using signal_1_range [of d m] by auto
  have b2: "0 \<le> calculate_signal_2_buyer_speed d m l e
            \<and> calculate_signal_2_buyer_speed d m l e \<le> 2"
    using signal_2_range [of d m l e] by auto
  have b3: "0 \<le> calculate_signal_3_liquidity_ratio d m e l
            \<and> calculate_signal_3_liquidity_ratio d m e l \<le> 3/2"
    using signal_3_range [of d m e l] by auto
  have b4: "0 \<le> calculate_signal_4_wallet_overlap d m l e
            \<and> calculate_signal_4_wallet_overlap d m l e \<le> 2"
    using signal_4_range [of d m l e] by auto
  have b5: "0 \<le> calculate_signal_5_buy_concentration d m l e
            \<and> calculate_signal_5_buy_concentration d m l e \<le> 1"
    using signal_5_range [of d m l e] by auto
  have b6: "0 \<le> calculate_signal_6_volume_acceleration d m l e
            \<and> calculate_signal_6_volume_acceleration d m l e \<le> 3/2"
    using signal_6_range [of d m l e] by auto
  have b7: "0 \<le> calculate_signal_7_mc_velocity d m l e
            \<and> calculate_signal_7_mc_velocity d m l e \<le> 3"
    using signal_7_range [of d m l e] by auto
  have w: "x \<in> {0, 1, 1.5, 2} \<Longrightarrow> x \<in> {0, 1/2, 1, 3/2, 2, 3}"
    "x \<in> {0, 0.5, 1} \<Longrightarrow> x \<in> {0, 1/2, 1, 3/2, 2, 3}"
    "x \<in> {0, 1, 1.5} \<Longrightarrow> x \<in> {0, 1/2, 1, 3/2, 2, 3}"
    "x \<in> {0, 1, 2, 3} \<Longrightarrow> x \<in> {0, 1/2, 1, 3/2, 2, 3}" for x :: real
    by auto
  have z: "(0::real) \<in> {0, 1/2, 1, 3/2, 2, 3}" by simp
  have ta: "py_sum [cs_signal_1 d c, cs_signal_2 d m l, 0, cs_signal_4 d m l, cs_signal_5 d m l,
                    cs_signal_6 d m l, cs_signal_7 d m l]
            = cs_signal_1 d c + cs_signal_2 d m l + 0 + cs_signal_4 d m l + cs_signal_5 d m l
              + cs_signal_6 d m l + cs_signal_7 d m l"
    by (rule sum_of_seven(1)
          [OF w(1) [OF cs_signal_1_range] w(1) [OF cs_signal_2_range] z
              w(1) [OF cs_signal_4_range] w(2) [OF cs_signal_5_range]
              w(3) [OF cs_signal_6_range] w(4) [OF cs_signal_7_range]])
  have tb: "fadd (fadd (fadd (fadd (fadd (fadd
              (calculate_signal_1_creator_reputation d m)
              (calculate_signal_2_buyer_speed d m l e))
              (calculate_signal_3_liquidity_ratio d m e l))
              (calculate_signal_4_wallet_overlap d m l e))
              (calculate_signal_5_buy_concentration d m l e))
              (calculate_signal_6_volume_acceleration d m l e))
              (calculate_signal_7_mc_velocity d m l e)
            = calculate_signal_1_creator_reputation d m + calculate_signal_2_buyer_speed d m l e
              + calculate_signal_3_liquidity_ratio d m e l + calculate_signal_4_wallet_overlap d m l e
              + calculate_signal_5_buy_concentration d m l e
              + calculate_signal_6_volume_acceleration d m l e
              + calculate_signal_7_mc_velocity d m l e"
    by (rule sum_of_seven(2)
          [OF w(1) [OF signal_1_range] w(1) [OF signal_2_range] w(3) [OF signal_3_range]
              w(1) [OF signal_4_range] w(2) [OF signal_5_range]
              w(3) [OF signal_6_range] w(4) [OF signal_7_range]])
  show ?thesis
    unfolding calculate_7_signal_score_def score_token_at_time_def Let_def
    using a1 a2 a4 a5 a6 a7 b1 b2 b3 b4 b5 b6 b7 by (simp add: ta tb)
qed

text \<open>Facts of the scenario \<open>db_velocity\<close>, which has price windows only.\<close>

lemma db_velocity_cs_signal_7: "cs_signal_7 db_velocity ''m'' 1000 = 1"
  by (simp add: cs_signal_7_def get_price_data_def db_velocity_def db_of_def win_def Let_def
      fops roundings)

lemma db_velocity_close_at:
  "close_at db_velocity ''m'' 1120 = Some (D 0.000002)"
  "close_at db_velocity ''m'' 1090 = Some (D 0.000001)"
  "close_at db_velocity ''m'' 1020 = Some (D 0.000001)"
  "close_at db_velocity ''m'' 990 = Some (D 0.0000005)"
  by (simp_all add: close_at_def db_velocity_def db_of_def win_def)

lemma db_velocity_signal_7: "calculate_signal_7_mc_velocity db_velocity ''m'' 1000 120 = 3"
  by (simp add: calculate_signal_7_mc_velocity_def db_velocity_close_at fops roundings)

lemma db_velocity_tables:
  "get_trades db_velocity ''m'' 1000 a b = []"
  "buys_between db_velocity ''m'' lo hi = []"
  "wallet_stats db_velocity = []"
  "tokens db_velocity = [\<lparr> mint = ''m'', launch_block_time = 1000, creator_wallet = ''c'',
                           initial_liquidity_sol = None \<rparr>]"
  by (simp_all add: get_trades_def buys_between_def db_velocity_def db_of_def)

text \<open>
  In \<open>db_velocity\<close> only signal 7 contributes: 1.0 in the all-strategies engine and
  3.0 in the standalone scorer at offset 120.
\<close>

theorem signal_bounds_witness:
  "total (calculate_7_signal_score db_velocity ''m'' 1000 ''c'') = 1
   \<and> total (calculate_7_signal_score db_velocity ''m'' 1000 ''c'') \<le> 13
   \<and> total_score (score_token_at_time db_velocity ''m'' 1000 120) = 3
   \<and> total_score (score_token_at_time db_velocity ''m'' 1000 120) \<le> 13"
proof -
  have x: "total (calculate_7_signal_score db_velocity ''m'' 1000 ''c'') = 1"
    by (simp add: calculate_7_signal_score_def cs_signal_1_def get_creator_stats_def
        db_velocity_tables cs_signal_2_def cs_signal_4_def cs_signal_5_def cs_signal_6_def
        db_velocity_cs_signal_7 distinct_count_def buy_traders_def buy_volume_def py_sum_def
        fadd_def)
  have y: "total_score (score_token_at_time db_velocity ''m'' 1000 120) = 3"
    by (simp add: score_token_at_time_def calculate_signal_1_creator_reputation_def
        db_velocity_tables calculate_signal_2_buyer_speed_def
        calculate_signal_3_liquidity_ratio_def calculate_signal_4_wallet_overlap_def
        profitable_wallets_def calculate_signal_5_buy_concentration_def trader_totals_def
        calculate_signal_6_volume_acceleration_def db_velocity_signal_7 distinct_count_def
        py_sum_def sql_sum_def fadd_def D_def roundings)
  show ?thesis
    using signal_bounds [of db_velocity "''m''" 1000 "''c''" 120] x y
    by (simp add: Let_def)
qed

section \<open>Signal 7: market-cap velocity\<close>

text \<open>
  Claim C4 as stated fails.  In \<open>db_velocity\<close> the market cap rises from 1000 to
  2000 over the 30 seconds before offset 120, a velocity of 2000 per minute, for which
  the claim gives 3.0; the all-strategies engine gives 1.0, since it divides the
  change between the first and third window after launch by 3.  Over the 30 seconds
  before offset 20 the velocity is 1000 per minute, for which the claim gives 3.0 as
  well, yet the standalone scorer gives 0 for every offset below 30.
\<close>

theorem mc_velocity_counterexample:
  "map_option velocity_tier (mc_velocity_30s db_velocity ''m'' (1000 + 120)) = Some 3
   \<and> signal_7 (calculate_7_signal_score db_velocity ''m'' 1000 ''c'') = 1
   \<and> map_option velocity_tier (mc_velocity_30s db_velocity ''m'' (1000 + 20)) = Some 3
   \<and> calculate_signal_7_mc_velocity db_velocity ''m'' 1000 20 = 0"
  by (simp add: mc_velocity_30s_def db_velocity_close_at velocity_tier_def
      calculate_7_signal_score_fields db_velocity_cs_signal_7
      calculate_signal_7_mc_velocity_def fops roundings)

text \<open>
  Claim C4, amended.  In the standalone scorer, for an evaluation offset of at least
  30 seconds and nonzero closes at the evaluation instant and 30 seconds earlier,
  signal 7 is the tier (3.0 from 1000, 2.0 from 500, 1.0 from 200, else 0) of the
  market-cap change over those 30 seconds per minute.  In the all-strategies engine
  signal 7 is the same tier of the market-cap change between the first and the third
  minute window in the 300 seconds after launch, divided by 3; it is 0 with fewer than
  three windows or a first close that is not positive.  The velocities are the ones
  the engines compute in double precision.
\<close>

theorem mc_velocity_amended:
  "(30 \<le> e \<and> close_at d m (l + e) = Some c \<and> c \<noteq> 0
      \<and> close_at d m (l + e - 30) = Some b \<and> b \<noteq> 0 \<longrightarrow>
      mc_velocity_30s d m (l + e)
        = Some (fmul (fdiv (fsub (fmul c 1000000000) (fmul b 1000000000)) 30) 60)
      \<and> calculate_signal_7_mc_velocity d m l e
          = velocity_tier (fmul (fdiv (fsub (fmul c 1000000000) (fmul b 1000000000)) 30) 60))
   \<and> cs_signal_7 d m l =
       (let prices = get_price_data d m l 300 in
        if 3 \<le> length prices \<and> 0 < close (prices ! 0)
        then velocity_tier (fdiv (fmul (fsub (close (prices ! 2)) (close (prices ! 0))) 1000000000) 3)
        else 0)"
  by (simp add: mc_velocity_30s_def calculate_signal_7_mc_velocity_def velocity_tier_def
      cs_signal_7_def Let_def)

theorem mc_velocity_amended_witness:
  "calculate_signal_7_mc_velocity db_velocity ''m'' 1000 120 = 3
   \<and> map_option velocity_tier (mc_velocity_30s db_velocity ''m'' (1000 + 120)) = Some 3
   \<and> cs_signal_7 db_velocity ''m'' 1000 = 1"
  using mc_velocity_amended [of 120 db_velocity "''m''" 1000 "D 0.000002" "D 0.000001"]
  by (simp add: db_velocity_close_at velocity_tier_def db_velocity_cs_signal_7 fops roundings)

section \<open>Signal 2: early-buyer speed\<close>

text \<open>
  The lists the queries return and the sets of buys they stand for.
\<close>

lemma buyers_get_trades:
  "set (buy_traders (get_trades d m l a b)) = trader ` buys_in d m l a b"
  by (auto simp: buy_traders_def get_trades_def buys_in_def)

lemma buyers_buys_between:
  "set (map trader (buys_between d m (l + a) (l + b))) = trader ` buys_in d m l a b"
  by (auto simp: buys_between_def buys_in_def)










section \<open>Signal 4: reputable-buyer overlap\<close>

lemma length_filter_remdups: "length (filter P (remdups xs)) = card {x \<in> set xs. P x}"
proof -
  have "length (filter P (remdups xs)) = card (set (filter P (remdups xs)))"
    by (rule distinct_card [symmetric]) simp
  also have "set (filter P (remdups xs)) = {x \<in> set xs. P x}" by auto
  finally show ?thesis .
qed

lemma profitable_wallets_subset:
  "length (profitable_wallets d) \<le> 100
   \<and> set (profitable_wallets d) \<subseteq> wallet ` {r \<in> set (wallet_stats d). is_profitable r}"
proof -
  have "set (take 100 xs) \<subseteq> set xs" for xs :: "wallet_stat list" by (rule set_take_subset)
  then show ?thesis
    unfolding profitable_wallets_def Let_def
    by (fastforce simp: image_iff dest: in_set_takeD)
qed

lemma buys_in_set: "buys_in d m l a b = set (buys_between d m (l + a) (l + b))"
  by (auto simp: buys_in_def buys_between_def)

lemma db_repeat_facts:
  "reputable db_repeat ''s''"
  "profitable_wallets db_repeat = [''p'']"
  "trader ` buys_in db_repeat ''m'' 1000 0 60 = {''s''}"
  by (simp_all add: reputable_def get_wallet_tier_def profitable_wallets_def is_profitable_def
      buys_in_set buys_between_def db_repeat_def db_of_def stats_row_def D_def roundings Let_def buy_def)

lemma db_single_facts:
  "reputable db_single ''s''" "\<not> reputable db_single ''p''"
  "profitable_wallets db_single = [''p'']"
  "trader ` buys_in db_single ''m'' 1000 0 60 = {''s'', ''p''}"
  "buy_traders (get_trades db_single ''m'' 1000 0 60) = [''s'', ''p'']"
  by (simp_all add: reputable_def get_wallet_tier_def profitable_wallets_def is_profitable_def
      buys_in_set buys_between_def buy_traders_def get_trades_def db_single_def db_of_def
      stats_row_def D_def roundings Let_def buy_def)

text \<open>
  Claim C5 as stated fails.  In \<open>db_repeat\<close> one wallet of tier S buys three times
  in the 60 seconds after launch: one distinct buyer of a top-three tier, for which
  the claim gives 1.0.  The standalone scorer gives 0, since its reputable wallets are
  those with net P&L of at least 100, and the all-strategies engine gives 2.0, since it
  counts the three buys.
\<close>

theorem wallet_overlap_counterexample:
  "card {w \<in> trader ` buys_in db_repeat ''m'' 1000 0 60. reputable db_repeat w} = 1
   \<and> overlap_tier 1 = 1.0
   \<and> calculate_signal_4_wallet_overlap db_repeat ''m'' 1000 60 = 0
   \<and> cs_signal_4 db_repeat ''m'' 1000 = 2.0"
proof -
  have "{w \<in> trader ` buys_in db_repeat ''m'' 1000 0 60. reputable db_repeat w} = {''s''}"
    using db_repeat_facts by auto
  then have 1: "card {w \<in> trader ` buys_in db_repeat ''m'' 1000 0 60. reputable db_repeat w} = 1"
    by simp
  have 2: "calculate_signal_4_wallet_overlap db_repeat ''m'' 1000 60 = 0"
    by (simp add: calculate_signal_4_wallet_overlap_def db_repeat_facts(2))
       (simp add: buys_between_def db_repeat_def db_of_def buy_def)
  have 3: "cs_signal_4 db_repeat ''m'' 1000 = 2.0"
    by (simp add: cs_signal_4_def get_trades_def get_wallet_tier_def db_repeat_def db_of_def
        stats_row_def D_def roundings Let_def buy_def)
  show ?thesis using 1 2 3 by (simp add: overlap_tier_def)
qed

text \<open>
  Claim C5, amended.  Signal 4 is 2.0 for a count of 3 or more, 1.5 for exactly 2, 1.0
  for exactly 1, else 0.  In the standalone scorer the count is of the distinct buyers
  in the interval from launch to the evaluation offset that are among the profitable
  wallets: at most 100 wallets, each with net P&L at least 100, win rate at least 0.5
  and at least 5 trades; with no profitable wallet the signal is 0.  In the
  all-strategies engine, when no wallet of tier S, A or B buys more than once in the 60
  seconds after launch, the count is of the distinct buyers in that interval whose tier
  is S, A or B.
\<close>

theorem wallet_overlap_amended:
  "calculate_signal_4_wallet_overlap d m l e =
     (if profitable_wallets d = [] then 0
      else overlap_tier (card (trader ` buys_in d m l 0 e \<inter> set (profitable_wallets d))))
   \<and> length (profitable_wallets d) \<le> 100
   \<and> set (profitable_wallets d) \<subseteq> wallet ` {r \<in> set (wallet_stats d). is_profitable r}
   \<and> (distinct (filter (reputable d) (buy_traders (get_trades d m l 0 60))) \<longrightarrow>
        cs_signal_4 d m l = overlap_tier (card {w \<in> trader ` buys_in d m l 0 60. reputable d w}))"
proof -
  have s: "{x \<in> set (map trader (buys_between d m (l + 0) (l + e))). x \<in> set (profitable_wallets d)}
           = trader ` buys_in d m l 0 e \<inter> set (profitable_wallets d)"
    unfolding buyers_buys_between by auto
  have a: "calculate_signal_4_wallet_overlap d m l e =
     (if profitable_wallets d = [] then 0
      else overlap_tier (card (trader ` buys_in d m l 0 e \<inter> set (profitable_wallets d))))"
    using s by (simp add: calculate_signal_4_wallet_overlap_def Let_def length_filter_remdups
        overlap_tier_def)
  have f: "length (filter (\<lambda>t. \<not> side t \<noteq> ''buy'' \<and> get_wallet_tier d (trader t) \<in> {Tier_S, Tier_A, Tier_B}) ts)
           = length (filter (reputable d) (buy_traders ts))" for ts
    by (induction ts) (auto simp: buy_traders_def reputable_def)
  have c: "cs_signal_4 d m l = overlap_tier (card {w \<in> trader ` buys_in d m l 0 60. reputable d w})"
    if "distinct (filter (reputable d) (buy_traders (get_trades d m l 0 60)))"
  proof -
    have "length (filter (reputable d) (buy_traders (get_trades d m l 0 60)))
          = card (set (filter (reputable d) (buy_traders (get_trades d m l 0 60))))"
      using that by (rule distinct_card [symmetric])
    also have "set (filter (reputable d) (buy_traders (get_trades d m l 0 60)))
          = {w \<in> trader ` buys_in d m l 0 60. reputable d w}"
      using buyers_get_trades [of d m l 0 60] by auto
    finally show ?thesis
      unfolding cs_signal_4_def Let_def f overlap_tier_def by auto
  qed
  show ?thesis using a c profitable_wallets_subset [of d] by blast
qed

theorem wallet_overlap_amended_witness:
  "calculate_signal_4_wallet_overlap db_single ''m'' 1000 60 = 1.0
   \<and> cs_signal_4 db_single ''m'' 1000 = 1.0"
proof -
  have "{w \<in> trader ` buys_in db_single ''m'' 1000 0 60. reputable db_single w} = {''s''}"
    using db_single_facts by auto
  then have r: "card {w \<in> trader ` buys_in db_single ''m'' 1000 0 60. reputable db_single w} = 1"
    by simp
  have "trader ` buys_in db_single ''m'' 1000 0 60 \<inter> set (profitable_wallets db_single) = {''p''}"
    using db_single_facts by auto
  then have q: "card (trader ` buys_in db_single ''m'' 1000 0 60 \<inter> {''p''}) = 1"
    by (simp add: db_single_facts(3))
  have dst: "distinct (filter (reputable db_single) (buy_traders (get_trades db_single ''m'' 1000 0 60)))"
    using db_single_facts by simp
  show ?thesis
    using wallet_overlap_amended [of db_single "''m''" 1000 60] dst
    by (simp add: r q db_single_facts(3) overlap_tier_def)
qed

section \<open>Signal 5: buy concentration\<close>




































section \<open>Aggregation\<close>

text \<open>
  The counts of a strategy after a batch are the counts before it plus the tally of
  the positions the batch holds for the strategy; the total P&L is accumulated over
  those positions in batch order.
\<close>

lemma map_of_update_entry:
  "map_of (update_entry n f res) k = (if k = n then map_option f (map_of res k) else map_of res k)"
  by (induction res) (auto simp: update_entry_def)

lemma tally_append: "tally (xs @ ys) = add_counts (tally xs) (tally ys)"
  by (simp add: tally_def)

lemma tally_Nil: "tally [] = (0, 0, 0)"
  by (simp add: tally_def)

lemma counts_record_result:
  "counts (record_result n r s) = add_counts (counts s) (tally [r])"
  by (simp add: counts_def record_result_def tally_def)

lemma add_counts_assoc:
  "add_counts (add_counts a b) c = add_counts a (add_counts b c)"
  by (cases a; cases b; cases c) simp

lemma add_counts_zero: "add_counts a (0, 0, 0) = a" "add_counts (0, 0, 0) a = a"
  by (cases a; simp)+

lemma update_entry_counts:
  "counts_of k (update_entry n (record_result n r) res)
     = (if map_of res k = None then (0, 0, 0)
        else add_counts (counts_of k res) (tally (if n = k then [r] else [])))"
  by (auto simp: counts_of_def map_of_update_entry counts_record_result tally_Nil
      add_counts_zero)

lemma update_entry_total_pnl:
  "total_pnl_of k (update_entry n (record_result n r) res)
     = (if map_of res k = None then 0
        else foldl fadd (total_pnl_of k res) (map pnl_usd (if n = k then [r] else [])))"
  by (auto simp: total_pnl_of_def map_of_update_entry record_result_def)

lemma update_entry_keys:
  "(map_of (update_entry n f res) k = None) = (map_of res k = None)"
  by (simp add: map_of_update_entry)

lemma run_strategies_keys:
  "(map_of (run_strategies ocs res) k = None) = (map_of res k = None)"
proof (induction ocs arbitrary: res)
  case Nil
  then show ?case by simp
next
  case (Cons x ocs)
  obtain n oc where x: "x = (n, oc)" by (cases x)
  show ?case using Cons x
    by (auto simp: map_of_update_entry split: sum.splits option.splits)
qed

lemma run_strategies_counts:
  "counts_of k (run_strategies ocs res)
     = (if map_of res k = None then (0, 0, 0)
        else add_counts (counts_of k res) (tally (recorded_in k ocs)))"
proof (induction ocs arbitrary: res)
  case Nil
  then show ?case by (auto simp: counts_of_def tally_Nil add_counts_zero)
next
  case (Cons x ocs)
  obtain n oc where x: "x = (n, oc)" by (cases x)
  show ?case
  proof (cases oc)
    case (Inl e)
    then show ?thesis using Cons x by simp
  next
    case (Inr po)
    show ?thesis
    proof (cases po)
      case None
      then show ?thesis using Cons x Inr by simp
    next
      case (Some r)
      have "counts_of k (run_strategies (x # ocs) res)
            = counts_of k (run_strategies ocs (update_entry n (record_result n r) res))"
        using x Inr Some by simp
      also have "\<dots> = (if map_of res k = None then (0, 0, 0)
            else add_counts
                   (add_counts (counts_of k res) (tally (if n = k then [r] else [])))
                   (tally (recorded_in k ocs)))"
        by (cases "map_of res k")
           (simp_all add: Cons update_entry_keys update_entry_counts)
      also have "\<dots> = (if map_of res k = None then (0, 0, 0)
            else add_counts (counts_of k res) (tally (recorded_in k (x # ocs))))"
        using x Inr Some by (simp add: add_counts_assoc tally_append)
      finally show ?thesis .
    qed
  qed
qed

lemma run_strategies_total_pnl:
  "total_pnl_of k (run_strategies ocs res)
     = (if map_of res k = None then 0
        else foldl fadd (total_pnl_of k res) (map pnl_usd (recorded_in k ocs)))"
proof (induction ocs arbitrary: res)
  case Nil
  then show ?case by (auto simp: total_pnl_of_def)
next
  case (Cons x ocs)
  obtain n oc where x: "x = (n, oc)" by (cases x)
  show ?case
  proof (cases oc)
    case (Inl e)
    then show ?thesis using Cons x by simp
  next
    case (Inr po)
    show ?thesis
    proof (cases po)
      case None
      then show ?thesis using Cons x Inr by simp
    next
      case (Some r)
      have "total_pnl_of k (run_strategies (x # ocs) res)
            = total_pnl_of k (run_strategies ocs (update_entry n (record_result n r) res))"
        using x Inr Some by simp
      also have "\<dots> = (if map_of res k = None then 0
            else foldl fadd
                   (foldl fadd (total_pnl_of k res) (map pnl_usd (if n = k then [r] else [])))
                   (map pnl_usd (recorded_in k ocs)))"
        by (cases "map_of res k")
           (simp_all add: Cons update_entry_keys update_entry_total_pnl)
      also have "\<dots> = (if map_of res k = None then 0
            else foldl fadd (total_pnl_of k res) (map pnl_usd (recorded_in k (x # ocs))))"
        using x Inr Some by simp
      finally show ?thesis .
    qed
  qed
qed

lemma run_batch_counts:
  "counts_of k (run_batch batch res)
     = (if map_of res k = None then (0, 0, 0)
        else add_counts (counts_of k res) (tally (recorded k batch)))"
proof (induction batch arbitrary: res)
  case Nil
  then show ?case by (auto simp: counts_of_def recorded_def tally_Nil add_counts_zero)
next
  case (Cons ocs batch)
  show ?case
    using Cons [of "run_strategies ocs res"]
    by (simp add: run_strategies_counts run_strategies_keys recorded_def tally_append
        add_counts_assoc)
qed

lemma run_batch_total_pnl:
  "total_pnl_of k (run_batch batch res)
     = (if map_of res k = None then 0
        else foldl fadd (total_pnl_of k res) (map pnl_usd (recorded k batch)))"
proof (induction batch arbitrary: res)
  case Nil
  then show ?case by (auto simp: total_pnl_of_def recorded_def)
next
  case (Cons ocs batch)
  show ?case
    using Cons [of "run_strategies ocs res"]
    by (simp add: run_strategies_total_pnl run_strategies_keys recorded_def)
qed

lemma tally_mset: "mset ps = mset qs \<Longrightarrow> tally ps = tally qs"
proof -
  assume e: "mset ps = mset qs"
  have 1: "length ps = length qs" using e by (rule mset_eq_length)
  have 2: "length (filter P ps) = length (filter P qs)" for P
  proof -
    have "mset (filter P ps) = mset (filter P qs)" using e by simp
    then show ?thesis by (rule mset_eq_length)
  qed
  show ?thesis by (simp add: tally_def 1 2)
qed

lemma recorded_mset: "mset b = mset b' \<Longrightarrow> mset (recorded k b) = mset (recorded k b')"
proof -
  assume e: "mset b = mset b'"
  have "mset (recorded k c) = (\<Sum>ocs\<in>#mset c. mset (recorded_in k ocs))" for c
    by (induction c) (simp_all add: recorded_def)
  then show ?thesis using e by simp
qed

lemma initial_counts:
  "counts_of k initial_results = (0, 0, 0)" "total_pnl_of k initial_results = 0"
  by (simp_all add: counts_of_def total_pnl_of_def initial_results_def no_trades_def counts_def)

lemma initial_keys: "(map_of initial_results k = None) = (k \<notin> set strategy_keys)"
  by (simp add: initial_results_def strategy_keys_def)

lemma batch_counts:
  "counts_of k (run_batch batch initial_results)
     = (if k \<in> set strategy_keys then tally (recorded k batch) else (0, 0, 0))"
  by (simp add: run_batch_counts initial_keys initial_counts add_counts_zero)

lemma batch_total_pnl:
  "total_pnl_of k (run_batch batch initial_results)
     = (if k \<in> set strategy_keys then foldl fadd 0 (map pnl_usd (recorded k batch)) else 0)"
  by (simp add: run_batch_total_pnl initial_keys initial_counts)

lemma statistics_of_parts:
  "map_of res k \<noteq> None \<Longrightarrow>
   statistics_of k res = (fst (counts_of k res), fst (snd (counts_of k res)),
                          snd (snd (counts_of k res)), total_pnl_of k res)"
  by (auto simp: statistics_of_def counts_of_def total_pnl_of_def statistics_def counts_def)

text \<open>
  The rank-based strategy, on a path that enters at 1 and times out at a close of
  1.15, 1.2 or 1.1, returns the positions of the batches \<open>batch_a\<close> and \<open>batch_b\<close>,
  with a P&L of 0.7499999999999994, 0.9999999999999998 and 0.5000000000000004
  dollars.
\<close>

lemma timeout_positions:
  "test_rank_based ''m'' 0 prices_115 25 = Some (timeout_115)"
  "test_rank_based ''m'' 0 prices_120 25 = Some (timeout_120)"
  "test_rank_based ''m'' 0 prices_110 25 = Some (timeout_110)"
  by (simp_all add: test_rank_based_def prices_115_def prices_120_def prices_110_def
      timeout_115_def timeout_120_def timeout_110_def win_def Let_def
      fops roundings)

lemma timeout_pnl:
  "pnl_usd (timeout_115) = 6755399441055739 / 9007199254740992"
  "pnl_usd (timeout_120) = 4503599627370495 / 4503599627370496"
  "pnl_usd (timeout_110) = 1125899906842625 / 2251799813685248"
  "0 < pnl_sol (timeout_115)" "0 < pnl_sol (timeout_120)"
  "0 < pnl_sol (timeout_110)"
  by (simp_all add: timeout_115_def timeout_120_def timeout_110_def mk_position_def
      SOL_PRICE_USD_def Let_def fops roundings)

lemma batch_recorded:
  "recorded ''rank_based'' batch_a = [timeout_115, timeout_120, timeout_110]"
  "recorded ''rank_based'' batch_b = [timeout_115, timeout_110, timeout_120]"
  "recorded ''rank_based'' batch_b_first = [timeout_115]"
  "recorded ''rank_based'' batch_b_rest = [timeout_110, timeout_120]"
  by (simp_all add: recorded_def batch_a_def batch_b_def batch_b_first_def batch_b_rest_def)

lemma batch_keys:
  "''rank_based'' \<in> set strategy_keys"
  "map_of (run_batch b initial_results) ''rank_based'' \<noteq> None"
proof -
  show k: "''rank_based'' \<in> set strategy_keys" by (simp add: strategy_keys_def)
  have "(map_of (run_batch b res) k = None) = (map_of res k = None)" for res k
    by (induction b arbitrary: res) (simp_all add: run_strategies_keys)
  then show "map_of (run_batch b initial_results) ''rank_based'' \<noteq> None"
    using k by (simp add: initial_keys)
qed

lemma batch_statistics:
  "statistics_of ''rank_based'' (run_batch batch_a initial_results)
     = (3, 3, 0, 5066549580791807 / 2251799813685248)"
  "statistics_of ''rank_based'' (run_batch batch_b initial_results) = (3, 3, 0, 9 / 4)"
  "statistics_of ''rank_based'' (run_batch batch_b_first initial_results)
     = (1, 1, 0, 6755399441055739 / 9007199254740992)"
  "statistics_of ''rank_based'' (run_batch batch_b_rest initial_results)
     = (2, 2, 0, 6755399441055745 / 4503599627370496)"
  by (simp_all add: statistics_of_parts [OF batch_keys(2)] batch_counts batch_total_pnl
      batch_keys(1) batch_recorded tally_def timeout_pnl fadd_def roundings)

text \<open>
  Claim C10 as stated fails.  The batches \<open>batch_a\<close> and \<open>batch_b\<close> hold the same
  three rank-based positions, each returned by the strategy, in two orders.  The
  counts agree, but the total P&L is 2.2499999999999996 after the one and 2.25 after
  the other: each \<^verbatim>\<open>+=\<close> rounds.  Nor is the total of \<open>batch_b\<close> the sum of the
  totals of its first asset and of its other two assets, which is
  2.2499999999999996.
\<close>

theorem statistics_order_counterexample:
  "test_rank_based ''m'' 0 prices_115 25 = Some (timeout_115)
   \<and> test_rank_based ''m'' 0 prices_120 25 = Some (timeout_120)
   \<and> test_rank_based ''m'' 0 prices_110 25 = Some (timeout_110)
   \<and> mset batch_a = mset batch_b \<and> batch_b_first @ batch_b_rest = batch_b
   \<and> statistics_of ''rank_based'' (run_batch batch_a initial_results)
       = (3, 3, 0, 5066549580791807 / 2251799813685248)
   \<and> statistics_of ''rank_based'' (run_batch batch_b initial_results) = (3, 3, 0, 9 / 4)
   \<and> statistics_of ''rank_based'' (run_batch batch_a initial_results)
       \<noteq> statistics_of ''rank_based'' (run_batch batch_b initial_results)
   \<and> add_statistics (statistics_of ''rank_based'' (run_batch batch_b_first initial_results))
                      (statistics_of ''rank_based'' (run_batch batch_b_rest initial_results))
       \<noteq> statistics_of ''rank_based'' (run_batch (batch_b_first @ batch_b_rest) initial_results)"
proof -
  have m: "mset batch_a = mset batch_b"
    by (simp add: batch_a_def batch_b_def add_mset_commute)
  have s: "batch_b_first @ batch_b_rest = batch_b"
    by (simp add: batch_b_def batch_b_first_def batch_b_rest_def)
  show ?thesis
    unfolding s by (simp add: timeout_positions m batch_statistics fadd_def roundings)
qed

text \<open>
  Claim C10, amended.  For every batch of outcomes and every strategy, the trade
  count, the win count and the loss count after running the batch are the same for
  every order of the batch; the counts of two batches run one after the other are the
  sums of the counts of each; and the counts are the tally of the recorded positions,
  a win being exactly a position with P&L above zero.  The total P&L is the sum of
  the P&L of the recorded positions added in double precision from 0.0 in the order
  of recording; after two batches run one after the other it is the total of the
  first, to which the P&L of the positions of the second are added in order.
\<close>

theorem counts_order_independent:
  "(mset batch = mset batch' \<longrightarrow>
      counts_of k (run_batch batch initial_results)
        = counts_of k (run_batch batch' initial_results))
   \<and> counts_of k (run_batch (b1 @ b2) initial_results)
        = add_counts (counts_of k (run_batch b1 initial_results))
                     (counts_of k (run_batch b2 initial_results))
   \<and> counts_of k (run_batch batch initial_results)
        = (if k \<in> set strategy_keys then tally (recorded k batch) else (0, 0, 0))
   \<and> total_pnl_of k (run_batch batch initial_results)
        = (if k \<in> set strategy_keys then foldl fadd 0.0 (map pnl_usd (recorded k batch)) else 0)
   \<and> total_pnl_of k (run_batch (b1 @ b2) initial_results)
        = (if k \<in> set strategy_keys
           then foldl fadd (total_pnl_of k (run_batch b1 initial_results))
                  (map pnl_usd (recorded k b2))
           else 0)"
proof -
  have a: "counts_of k (run_batch batch initial_results)
        = counts_of k (run_batch batch' initial_results)" if "mset batch = mset batch'"
    using tally_mset [OF recorded_mset [OF that, of k]] by (simp add: batch_counts)
  have b: "counts_of k (run_batch (b1 @ b2) initial_results)
        = add_counts (counts_of k (run_batch b1 initial_results))
                     (counts_of k (run_batch b2 initial_results))"
    by (simp add: batch_counts recorded_def tally_append add_counts_zero)
  have c: "total_pnl_of k (run_batch batch initial_results)
        = (if k \<in> set strategy_keys then foldl fadd 0.0 (map pnl_usd (recorded k batch)) else 0)"
    by (simp add: batch_total_pnl)
  have d: "total_pnl_of k (run_batch (b1 @ b2) initial_results)
        = (if k \<in> set strategy_keys
           then foldl fadd (total_pnl_of k (run_batch b1 initial_results))
                  (map pnl_usd (recorded k b2))
           else 0)"
    by (simp add: batch_total_pnl recorded_def)
  show ?thesis using a b c d batch_counts by blast
qed

text \<open>
  The two batches of three rank-based wins: three trades, three wins and no loss in
  either order, and the total of \<open>batch_a\<close> is the sum added in its order.
\<close>

theorem counts_order_independent_witness:
  "counts_of ''rank_based'' (run_batch batch_a initial_results)
     = counts_of ''rank_based'' (run_batch batch_b initial_results)
   \<and> counts_of ''rank_based'' (run_batch batch_a initial_results) = (3, 3, 0)
   \<and> total_pnl_of ''rank_based'' (run_batch batch_a initial_results)
       = 5066549580791807 / 2251799813685248"
proof -
  have m: "mset batch_a = mset batch_b"
    by (simp add: batch_a_def batch_b_def add_mset_commute)
  note th = counts_order_independent [of batch_a batch_b "''rank_based''" "[]" "[]"]
  have 1: "counts_of ''rank_based'' (run_batch batch_a initial_results)
     = counts_of ''rank_based'' (run_batch batch_b initial_results)"
    using th [THEN conjunct1] m by (rule mp)
  have 2: "counts_of ''rank_based'' (run_batch batch_a initial_results) = (3, 3, 0)"
    using th [THEN conjunct2, THEN conjunct2, THEN conjunct1]
    by (simp add: batch_keys(1) batch_recorded tally_def timeout_pnl)
  have 3: "total_pnl_of ''rank_based'' (run_batch batch_a initial_results)
       = 5066549580791807 / 2251799813685248"
    using th [THEN conjunct2, THEN conjunct2, THEN conjunct2, THEN conjunct1]
    by (simp add: batch_keys(1) batch_recorded timeout_pnl fadd_def roundings)
  show ?thesis using 1 2 3 by simp
qed

section \<open>Faults in a batch\<close>

lemma run_strategies_append:
  "run_strategies (a @ b) res = run_strategies b (run_strategies a res)"
  by (induction a arbitrary: res) auto

lemma run_batch_append: "run_batch (a @ b) res = run_batch b (run_batch a res)"
  by (induction a arbitrary: res) auto

text \<open>
  Claim C8 as stated fails.  A batch in which the rank-based call raises and a batch
  in which it returns no position differ in their number of faults, 1 and 0, and
  yield the same results and the same report: no fault counter exists and the report
  does not show the fault.
\<close>

theorem fault_count_counterexample:
  "fault_count [[(''rank_based'', Inl (Exception ''fault'')),
                 (''dollar_scalping'', Inr (Some scalp_win))]] = 1
   \<and> fault_count [[(''rank_based'', Inr None), (''dollar_scalping'', Inr (Some scalp_win))]] = 0
   \<and> run_batch [[(''rank_based'', Inl (Exception ''fault'')),
                  (''dollar_scalping'', Inr (Some scalp_win))]] initial_results
     = run_batch [[(''rank_based'', Inr None), (''dollar_scalping'', Inr (Some scalp_win))]]
         initial_results
   \<and> print_comprehensive_results
       (run_batch [[(''rank_based'', Inl (Exception ''fault'')),
                    (''dollar_scalping'', Inr (Some scalp_win))]] initial_results) 30
     = print_comprehensive_results
       (run_batch [[(''rank_based'', Inr None), (''dollar_scalping'', Inr (Some scalp_win))]]
          initial_results) 30
   \<and> \<not> isl (print_comprehensive_results
       (run_batch [[(''rank_based'', Inl (Exception ''fault'')),
                    (''dollar_scalping'', Inr (Some scalp_win))]] initial_results) 30)"
  by (simp add: fault_count_def print_comprehensive_results_def initial_results_def
      update_entry_def record_result_def no_trades_def strategy_keys_def Let_def)

text \<open>
  Claim C8, amended.  An exception raised by a strategy call for one asset is caught
  at that call: the batch is not aborted, nothing is recorded for that strategy and
  asset, and the remaining strategies and assets are processed.  No fault is counted:
  the results and the report are those of the batch without the faulting call.
\<close>

theorem fault_swallowed:
  "run_strategies (ocs1 @ (k, Inl e) # ocs2) res = run_strategies (ocs1 @ ocs2) res
   \<and> run_batch (pre @ (ocs1 @ (k, Inl e) # ocs2) # post) res
       = run_batch (pre @ (ocs1 @ ocs2) # post) res
   \<and> print_comprehensive_results (run_batch (pre @ (ocs1 @ (k, Inl e) # ocs2) # post) res) days
       = print_comprehensive_results (run_batch (pre @ (ocs1 @ ocs2) # post) res) days"
  by (simp add: run_strategies_append run_batch_append)

text \<open>
  The rank-based call raises and the dollar-scalping call of the same asset is
  recorded.
\<close>

theorem fault_swallowed_witness:
  "run_batch [[(''rank_based'', Inl (Exception ''fault'')),
               (''dollar_scalping'', Inr (Some scalp_win))]] initial_results
     = update_entry ''dollar_scalping'' (record_result ''dollar_scalping'' scalp_win) initial_results"
  using fault_swallowed [of "[]" "''rank_based''" "Exception ''fault''"
          "[(''dollar_scalping'', Inr (Some scalp_win))]" initial_results "[]" "[]" 30]
  by simp


end
